theory Spec2Isabelle
  imports Complex_Main
begin

section \<open>Probe-graph construction of \<open>cdm/chg_utils.py\<close>\<close>

text \<open>
  A shallow embedding of the probe-graph assembler (\<open>ProbeGraphAdder\<close>), its two
  neighbour-finding wrappers (\<open>AseNeighborListWrapper\<close>, \<open>RadiusGraphPBCWrapper\<close>) and
  \<open>calculate_grid_pos\<close>.

  Conventions of the embedding:
  \<^item> tensors and arrays are lists, in the element order of the source;
  \<^item> coordinates are exact reals: the rounding of the source's 32 and 64 bit floats is
    not modelled;
  \<^item> every exception of the source is a value \<open>Inl e\<close> of the result type;
  \<^item> the ASE neighbour list (\<open>ase.neighborlist.NewPrimitiveNeighborList\<close>) and the random
    number generator (\<open>np.random.randint\<close>) are libraries outside the repository: they are
    parameters of the functions that call them;
  \<^item> the host record lives in a store, addressed by a reference, because the assembler
    mutates it in place and returns the reference it was given.
\<close>

subsection \<open>Vectors, cells and errors\<close>

type_synonym vec3 = "real \<times> real \<times> real"
type_synonym ivec3 = "int \<times> int \<times> int"
type_synonym mat3 = "vec3 \<times> vec3 \<times> vec3"

datatype error =
    AssertionError
  | NotImplementedError
  | ValueError
  | IndexError
  | UnboundLocalError
  | OverflowError
  | RuntimeError
  | AttributeError

fun vadd :: "vec3 \<Rightarrow> vec3 \<Rightarrow> vec3" where
  "vadd (a, b, c) (x, y, z) = (a + x, b + y, c + z)"

fun vsub :: "vec3 \<Rightarrow> vec3 \<Rightarrow> vec3" where
  "vsub (a, b, c) (x, y, z) = (a - x, b - y, c - z)"

fun vscale :: "real \<Rightarrow> vec3 \<Rightarrow> vec3" where
  "vscale s (x, y, z) = (s * x, s * y, s * z)"

fun vdot :: "vec3 \<Rightarrow> vec3 \<Rightarrow> real" where
  "vdot (a, b, c) (x, y, z) = a * x + b * y + c * z"

fun cross :: "vec3 \<Rightarrow> vec3 \<Rightarrow> vec3" where
  "cross (a, b, c) (x, y, z) = (b * z - c * y, c * x - a * z, a * y - b * x)"

definition norm2 :: "vec3 \<Rightarrow> real" where
  "norm2 v = sqrt (vdot v v)"

text \<open>\<open>np.dot(f, cell)\<close> for a row vector \<open>f\<close>: the combination of the cell's rows.\<close>

fun vec_mat :: "vec3 \<Rightarrow> mat3 \<Rightarrow> vec3" where
  "vec_mat (f1, f2, f3) (a1, a2, a3) =
     vadd (vscale f1 a1) (vadd (vscale f2 a2) (vscale f3 a3))"

fun ineg :: "ivec3 \<Rightarrow> ivec3" where
  "ineg (i, j, k) = (- i, - j, - k)"

fun of_ivec :: "ivec3 \<Rightarrow> vec3" where
  "of_ivec (i, j, k) = (of_int i, of_int j, of_int k)"

subsection \<open>Atoms, density grid and grid positions\<close>

record atoms =
  at_numbers :: "int list"
  at_positions :: "vec3 list"
  at_cell :: mat3
  at_pbc :: "bool \<times> bool \<times> bool"

text \<open>\<open>Atoms(numbers=..., positions=..., cell=..., pbc=...)\<close>: ASE refuses arrays of
  different lengths.\<close>

definition Atoms :: "int list \<Rightarrow> vec3 list \<Rightarrow> mat3 \<Rightarrow> bool \<times> bool \<times> bool \<Rightarrow> error + atoms" where
  "Atoms numbers positions cell pbc =
     (if length numbers \<noteq> length positions then Inl ValueError
      else Inr \<lparr>at_numbers = numbers, at_positions = positions, at_cell = cell, at_pbc = pbc\<rparr>)"

text \<open>A 3-dimensional array: its shape and its value at each index triple.\<close>

record density_grid =
  dg_shape :: "nat \<times> nat \<times> nat"
  dg_value :: "nat \<times> nat \<times> nat \<Rightarrow> real"

fun total_points :: "nat \<times> nat \<times> nat \<Rightarrow> nat" where
  "total_points (nx, ny, nz) = nx * ny * nz"

text \<open>\<open>density[::stride, ::stride, ::stride]\<close> for a positive stride.\<close>

definition ceil_div :: "nat \<Rightarrow> nat \<Rightarrow> nat" where
  "ceil_div n s = (n + s - 1) div s"

fun strided :: "nat \<Rightarrow> density_grid \<Rightarrow> density_grid" where
  "strided s g =
     (case dg_shape g of (nx, ny, nz) \<Rightarrow>
        \<lparr>dg_shape = (ceil_div nx s, ceil_div ny s, ceil_div nz s),
         dg_value = (\<lambda>(i, j, k). dg_value g (i * s, j * s, k * s))\<rparr>)"

text \<open>\<open>calculate_grid_pos(shape, cell)\<close>, read at one index triple.\<close>

fun calculate_grid_pos :: "nat \<times> nat \<times> nat \<Rightarrow> mat3 \<Rightarrow> nat \<times> nat \<times> nat \<Rightarrow> vec3" where
  "calculate_grid_pos (nx, ny, nz) cell (i, j, k) =
     vec_mat (real i / real nx, real j / real ny, real k / real nz) cell"

text \<open>\<open>np.unravel_index\<close> in C order; an index outside the grid raises \<open>ValueError\<close>.\<close>

fun unravel1 :: "nat \<times> nat \<times> nat \<Rightarrow> int \<Rightarrow> error + nat \<times> nat \<times> nat" where
  "unravel1 (nx, ny, nz) idx =
     (if idx < 0 \<or> int (nx * ny * nz) \<le> idx then Inl ValueError
      else Inr (nat idx div (ny * nz), (nat idx div nz) mod ny, nat idx mod nz))"

fun unravel_index :: "int list \<Rightarrow> nat \<times> nat \<times> nat \<Rightarrow> error + (nat \<times> nat \<times> nat) list" where
  "unravel_index [] shape = Inr []"
| "unravel_index (idx # rest) shape =
     (case unravel1 shape idx of
        Inl e \<Rightarrow> Inl e
      | Inr t \<Rightarrow> (case unravel_index rest shape of Inl e \<Rightarrow> Inl e | Inr ts \<Rightarrow> Inr (t # ts)))"

text \<open>\<open>np.arange(a, b, step=1)\<close> on integers.\<close>

definition arange :: "int \<Rightarrow> int \<Rightarrow> int list" where
  "arange a b = [a..b - 1]"

subsection \<open>The vectorised radius graph (\<open>RadiusGraphPBCWrapper\<close>)\<close>

record radius_graph =
  rg_cutoff :: real
  rg_edge_index :: "(nat \<times> nat) list"
  rg_offsets :: "ivec3 list"

text \<open>Replications along one axis: \<open>ceil(radius * norm(cross / cell_vol))\<close> when the axis is
  periodic, zero otherwise. A cell of volume zero makes the quotient infinite or undefined
  and \<open>torch.arange\<close> fails on it, as it does on a negative count.\<close>

definition rep_axis :: "bool \<Rightarrow> real \<Rightarrow> vec3 \<Rightarrow> real \<Rightarrow> error + int" where
  "rep_axis periodic radius crs cell_vol =
     (if \<not> periodic then Inr 0
      else if cell_vol = 0 then Inl RuntimeError
      else (let rep = \<lceil>radius * norm2 (vscale (1 / cell_vol) crs)\<rceil>
            in if rep < 0 then Inl RuntimeError else Inr rep))"

text \<open>\<open>torch.cartesian_prod\<close> of the three ranges \<open>[-rep, rep]\<close>.\<close>

definition unit_cells :: "int \<Rightarrow> int \<Rightarrow> int \<Rightarrow> ivec3 list" where
  "unit_cells r1 r2 r3 =
     concat (map (\<lambda>i. concat (map (\<lambda>j. map (\<lambda>k. (i, j, k)) (arange (- r3) (r3 + 1)))
                                   (arange (- r2) (r2 + 1))))
                 (arange (- r1) (r1 + 1)))"

text \<open>Squared distance between the first position and the translated second position.\<close>

definition atom_distance_sqr :: "mat3 \<Rightarrow> vec3 \<Rightarrow> vec3 \<Rightarrow> ivec3 \<Rightarrow> real" where
  "atom_distance_sqr cell pos1 pos2 u =
     (let d = vsub pos1 (vadd pos2 (vec_mat (of_ivec u) cell)) in vdot d d)"

definition mask :: "real \<Rightarrow> mat3 \<Rightarrow> vec3 \<Rightarrow> vec3 \<Rightarrow> ivec3 \<Rightarrow> bool" where
  "mask radius cell pos1 pos2 u =
     (atom_distance_sqr cell pos1 pos2 u \<le> radius * radius
      \<and> atom_distance_sqr cell pos1 pos2 u > 0.0001)"

text \<open>The kept (atom, probe, translation) triples, in the order of the flattened tensors:
  atoms outermost, then probes, then unit cells.\<close>

definition rg_triples ::
  "real \<Rightarrow> mat3 \<Rightarrow> vec3 list \<Rightarrow> nat list \<Rightarrow> nat list \<Rightarrow> ivec3 list \<Rightarrow> (nat \<times> nat \<times> ivec3) list" where
  "rg_triples radius cell positions atom_idx probe_idx cells =
     concat (map (\<lambda>a. concat (map (\<lambda>p.
        map (\<lambda>u. (a, p, u))
            (filter (\<lambda>u. mask radius cell (positions ! a) (positions ! p) u) cells))
        probe_idx)) atom_idx)"

definition RadiusGraphPBCWrapper ::
  "real \<Rightarrow> atoms \<Rightarrow> bool \<times> bool \<times> bool \<Rightarrow> error + radius_graph" where
  "RadiusGraphPBCWrapper radius ats pbc =
     (let is_probe = (\<lambda>i. at_numbers ats ! i = 0);
          indices = [0..<length (at_numbers ats)];
          atom_idx = filter (\<lambda>i. \<not> is_probe i) indices;
          probe_idx = filter is_probe indices
      in case at_cell ats of (a1, a2, a3) \<Rightarrow>
         (let cross_a2a3 = cross a2 a3;
              cell_vol = vdot a1 cross_a2a3
          in case pbc of (p1, p2, p3) \<Rightarrow>
             (case rep_axis p1 radius cross_a2a3 cell_vol of Inl e \<Rightarrow> Inl e | Inr rep_a1 \<Rightarrow>
             (case rep_axis p2 radius (cross a3 a1) cell_vol of Inl e \<Rightarrow> Inl e | Inr rep_a2 \<Rightarrow>
             (case rep_axis p3 radius (cross a1 a2) cell_vol of Inl e \<Rightarrow> Inl e | Inr rep_a3 \<Rightarrow>
                (let kept = rg_triples radius (at_cell ats) (at_positions ats)
                              atom_idx probe_idx (unit_cells rep_a1 rep_a2 rep_a3)
                 in Inr \<lparr>rg_cutoff = radius,
                         rg_edge_index = map (\<lambda>(a, p, u). (a, p)) kept,
                         rg_offsets = map (\<lambda>(a, p, u). ineg u) kept\<rparr>))))))"

definition rg_get_all_neighbors ::
  "radius_graph \<Rightarrow> real \<Rightarrow> bool \<Rightarrow> error + (nat \<times> nat) list \<times> ivec3 list" where
  "rg_get_all_neighbors w cutoff include_atomic_edges =
     (if cutoff \<noteq> rg_cutoff w then Inl AssertionError
      else Inr (rg_edge_index w, rg_offsets w))"

subsection \<open>The cell-list strategy (\<open>AseNeighborListWrapper\<close>)\<close>

text \<open>The built ASE neighbour list, as the wrapper reads it: \<open>get_neighbors(i)\<close> gives the
  neighbour indices of position \<open>i\<close>, each with the offset the library stored for it. The
  library is a parameter: given the cutoff, the periodicity flags, the cell and the
  positions it was built with, it answers \<open>get_neighbors\<close>.\<close>

type_synonym ase_library =
  "real \<Rightarrow> bool \<times> bool \<times> bool \<Rightarrow> mat3 \<Rightarrow> vec3 list \<Rightarrow> nat \<Rightarrow> (nat \<times> ivec3) list"

record ase_wrapper =
  aw_neighborlist :: "nat \<Rightarrow> (nat \<times> ivec3) list"
  aw_cutoff :: real
  aw_num_atoms :: nat
  aw_atomic_numbers :: "int list"

definition AseNeighborListWrapper :: "ase_library \<Rightarrow> real \<Rightarrow> atoms \<Rightarrow> ase_wrapper" where
  "AseNeighborListWrapper lib cutoff ats =
     \<lparr>aw_neighborlist = lib cutoff (at_pbc ats) (at_cell ats) (at_positions ats),
      aw_cutoff = cutoff,
      aw_num_atoms = length (filter (\<lambda>z. z \<noteq> 0) (at_numbers ats)),
      aw_atomic_numbers = at_numbers ats\<rparr>"

definition ase_get_neighbors ::
  "ase_wrapper \<Rightarrow> nat \<Rightarrow> real \<Rightarrow> error + nat list \<times> ivec3 list" where
  "ase_get_neighbors w i cutoff =
     (if cutoff \<noteq> aw_cutoff w then Inl AssertionError
      else (let res = aw_neighborlist w i
            in Inr (map fst res, map (\<lambda>(j, offset). ineg offset) res)))"

text \<open>One turn of the loop of \<open>get_all_neighbors\<close>: the edges of atom \<open>i\<close>. Reading the
  species of a neighbour index beyond the array raises \<open>IndexError\<close>.\<close>

definition ase_row ::
  "int list \<Rightarrow> bool \<Rightarrow> nat \<Rightarrow> (nat \<times> ivec3) list \<Rightarrow> error + (nat \<times> nat \<times> ivec3) list" where
  "ase_row numbers include_atomic_edges i neigh =
     (if include_atomic_edges then Inr (map (\<lambda>(j, offset). (i, j, offset)) neigh)
      else if \<exists>(j, offset) \<in> set neigh. length numbers \<le> j then Inl IndexError
      else Inr (map (\<lambda>(j, offset). (i, j, offset))
                    (filter (\<lambda>(j, offset). numbers ! j = 0) neigh)))"

fun ase_rows ::
  "int list \<Rightarrow> bool \<Rightarrow> (nat \<times> (nat \<times> ivec3) list) list \<Rightarrow> error + (nat \<times> nat \<times> ivec3) list" where
  "ase_rows numbers iae [] = Inr []"
| "ase_rows numbers iae ((i, neigh) # rest) =
     (case ase_row numbers iae i neigh of
        Inl e \<Rightarrow> Inl e
      | Inr es \<Rightarrow> (case ase_rows numbers iae rest of Inl e \<Rightarrow> Inl e | Inr fs \<Rightarrow> Inr (es @ fs)))"

text \<open>\<open>get_all_neighbors\<close> reads the library's list directly and never looks at its
  \<open>cutoff\<close> argument. \<open>np.concatenate\<close> of no rows raises \<open>ValueError\<close>.\<close>

definition ase_get_all_neighbors ::
  "ase_wrapper \<Rightarrow> real \<Rightarrow> bool \<Rightarrow> error + (nat \<times> nat) list \<times> ivec3 list" where
  "ase_get_all_neighbors w cutoff include_atomic_edges =
     (let results = map (\<lambda>i. (i, aw_neighborlist w i)) [0..<aw_num_atoms w]
      in case ase_rows (aw_atomic_numbers w) include_atomic_edges results of
           Inl e \<Rightarrow> Inl e
         | Inr es \<Rightarrow>
             if results = [] then Inl ValueError
             else Inr (map (\<lambda>(i, j, offset). (i, j)) es, map (\<lambda>(i, j, offset). offset) es))"

subsection \<open>The assembler (\<open>ProbeGraphAdder\<close>)\<close>

record probe_graph_adder =
  pga_num_probes :: int
  pga_cutoff :: real
  pga_include_atomic_edges :: bool
  pga_mode :: string
  pga_slice_start :: int
  pga_stride :: int
  pga_implementation :: string

text \<open>The keyword arguments of \<open>__call__\<close>; \<open>None\<close> selects the instance's value.
  (\<open>use_tqdm\<close> only draws a progress bar and is left out.)\<close>

record call_args =
  ca_slice_start :: "int option"
  ca_num_probes :: "int option"
  ca_mode :: "string option"
  ca_stride :: "int option"

text \<open>The attached probe graph. \<open>edge_index\<close> and \<open>cell_offsets\<close> are attributes whose
  presence the assembler tests with \<open>hasattr\<close>.\<close>

record probe_data =
  pd_cell :: mat3
  pd_atomic_numbers :: "int list"
  pd_natoms :: nat
  pd_pos :: "vec3 list"
  pd_target :: "real list"
  pd_edge_index :: "(nat \<times> nat) list option"
  pd_cell_offsets :: "ivec3 list option"
  pd_neighbors :: nat

text \<open>The host record; every further attribute it carries is in the record's extension.\<close>

record data_object =
  do_atomic_numbers :: "int list"
  do_pos :: "vec3 list"
  do_cell :: mat3
  do_charge_density :: density_grid
  do_probe_data :: "probe_data option"

type_synonym randint = "int \<Rightarrow> int \<Rightarrow> error + int list"

definition get_edges_from_choice ::
  "probe_graph_adder \<Rightarrow> ase_library \<Rightarrow> (nat \<times> nat \<times> nat) list \<Rightarrow> (nat \<times> nat \<times> nat \<Rightarrow> vec3)
     \<Rightarrow> atoms \<Rightarrow> bool \<Rightarrow> error + (nat \<times> nat) list \<times> ivec3 list \<times> int list \<times> vec3 list" where
  "get_edges_from_choice self lib probe_choice grid_pos ats include_atomic_edges =
     (let probe_pos = map grid_pos probe_choice;
          atoms_with_probes =
            ats\<lparr>at_numbers := at_numbers ats @ replicate (length probe_pos) 0,
                at_positions := at_positions ats @ probe_pos\<rparr>;
          atomic_numbers = at_numbers atoms_with_probes
      in if pga_implementation self = ''ASE'' then
           (case ase_get_all_neighbors
                   (AseNeighborListWrapper lib (pga_cutoff self) atoms_with_probes)
                   (pga_cutoff self) include_atomic_edges of
              Inl e \<Rightarrow> Inl e
            | Inr (edge_index, cell_offsets) \<Rightarrow>
                Inr (edge_index, cell_offsets, atomic_numbers, probe_pos))
         else if pga_implementation self = ''RGPBC'' then
           (case RadiusGraphPBCWrapper (pga_cutoff self) atoms_with_probes (True, True, False) of
              Inl e \<Rightarrow> Inl e
            | Inr neighborlist \<Rightarrow>
                (case rg_get_all_neighbors neighborlist (pga_cutoff self) include_atomic_edges of
                   Inl e \<Rightarrow> Inl e
                 | Inr (edge_index, cell_offsets) \<Rightarrow>
                     Inr (edge_index, cell_offsets, atomic_numbers, probe_pos)))
         else Inl NotImplementedError)"

text \<open>The downsampling of lines 131 to 133: the stride must be 1, 2 or 4.\<close>

definition downsample :: "int \<Rightarrow> density_grid \<Rightarrow> error + density_grid" where
  "downsample stride density =
     (if stride \<noteq> 1 then
        (if stride = 2 \<or> stride = 4 then Inr (strided (nat stride) density)
         else Inl AssertionError)
      else Inr density)"

text \<open>What the three sampling branches leave in the local variables \<open>probe_edges\<close>,
  \<open>probe_offsets\<close>, \<open>atomic_numbers\<close>, \<open>probe_pos\<close> and \<open>probe_choice\<close>.\<close>

type_synonym sampled =
  "(nat \<times> nat) list \<times> ivec3 list \<times> int list \<times> vec3 list \<times> (nat \<times> nat \<times> nat) list"

definition edges_of_indices ::
  "probe_graph_adder \<Rightarrow> ase_library \<Rightarrow> (nat \<times> nat \<times> nat \<Rightarrow> vec3) \<Rightarrow> atoms
     \<Rightarrow> nat \<times> nat \<times> nat \<Rightarrow> int list \<Rightarrow> error + sampled" where
  "edges_of_indices self lib grid_pos ats shape idxs =
     (case unravel_index idxs shape of
        Inl e \<Rightarrow> Inl e
      | Inr probe_choice \<Rightarrow>
          (case get_edges_from_choice self lib probe_choice grid_pos ats
                  (pga_include_atomic_edges self) of
             Inl e \<Rightarrow> Inl e
           | Inr (probe_edges, probe_offsets, atomic_numbers, probe_pos) \<Rightarrow>
               Inr (probe_edges, probe_offsets, atomic_numbers, probe_pos, probe_choice)))"

text \<open>The flattened indices of block \<open>i\<close> (lines 167 to 170).\<close>

definition block_indices :: "int \<Rightarrow> int \<Rightarrow> int \<Rightarrow> int \<Rightarrow> int list" where
  "block_indices num_probes total_probes num_blocks i =
     (if i = num_blocks - 1 then arange (i * num_probes) total_probes
      else arange (i * num_probes) ((i + 1) * num_probes))"

text \<open>\<open>new_edges[1] += i*num_probes\<close>: the second row of the block's edge index.\<close>

definition shift_edges :: "int \<Rightarrow> (nat \<times> nat) list \<Rightarrow> (nat \<times> nat) list" where
  "shift_edges k es = map (\<lambda>(a, p). (a, nat (int p + k))) es"

text \<open>The loop of mode \<open>all\<close> (lines 166 to 182), over the remaining block numbers.\<close>

fun all_loop ::
  "probe_graph_adder \<Rightarrow> ase_library \<Rightarrow> (nat \<times> nat \<times> nat \<Rightarrow> vec3) \<Rightarrow> atoms \<Rightarrow> nat \<times> nat \<times> nat
     \<Rightarrow> int \<Rightarrow> int \<Rightarrow> int \<Rightarrow> int list
     \<Rightarrow> (nat \<times> nat) list \<times> ivec3 list \<times> int list \<times> vec3 list
     \<Rightarrow> error + (nat \<times> nat) list \<times> ivec3 list \<times> int list \<times> vec3 list" where
  "all_loop self lib grid_pos ats shape num_probes total_probes num_blocks [] acc = Inr acc"
| "all_loop self lib grid_pos ats shape num_probes total_probes num_blocks (i # rest)
      (probe_edges, probe_offsets, atomic_numbers, probe_pos) =
     (case edges_of_indices self lib grid_pos ats shape
             (block_indices num_probes total_probes num_blocks i) of
        Inl e \<Rightarrow> Inl e
      | Inr (new_edges, new_offsets, new_atomic_numbers, new_pos, new_choice) \<Rightarrow>
          all_loop self lib grid_pos ats shape num_probes total_probes num_blocks rest
            (probe_edges @ shift_edges (i * num_probes) new_edges,
             probe_offsets @ new_offsets,
             atomic_numbers @ replicate (length new_pos) 0,
             probe_pos @ new_pos))"

text \<open>\<open>int(np.ceil(total_probes / num_probes))\<close>: the quotient by zero is infinite (or
  undefined for an empty grid) and its conversion to an integer fails.\<close>

definition num_blocks_of :: "int \<Rightarrow> int \<Rightarrow> error + int" where
  "num_blocks_of total_probes num_probes =
     (if num_probes = 0 then Inl (if total_probes = 0 then ValueError else OverflowError)
      else Inr \<lceil>real_of_int total_probes / real_of_int num_probes\<rceil>)"

definition sample_all ::
  "probe_graph_adder \<Rightarrow> ase_library \<Rightarrow> (nat \<times> nat \<times> nat \<Rightarrow> vec3) \<Rightarrow> atoms \<Rightarrow> nat \<times> nat \<times> nat
     \<Rightarrow> int list \<Rightarrow> int \<Rightarrow> error + sampled" where
  "sample_all self lib grid_pos ats shape host_numbers num_probes =
     (let total_probes = int (total_points shape)
      in case num_blocks_of total_probes num_probes of
           Inl e \<Rightarrow> Inl e
         | Inr num_blocks \<Rightarrow>
             (case all_loop self lib grid_pos ats shape num_probes total_probes num_blocks
                     (arange 0 num_blocks) ([], [], host_numbers, []) of
                Inl e \<Rightarrow> Inl e
              | Inr (probe_edges, probe_offsets, atomic_numbers, probe_pos) \<Rightarrow>
                  (case unravel_index (arange 0 total_probes) shape of
                     Inl e \<Rightarrow> Inl e
                   | Inr probe_choice \<Rightarrow>
                       Inr (probe_edges, probe_offsets, atomic_numbers, probe_pos,
                            probe_choice))))"

text \<open>Lines 137 to 186. The three tests are independent \<open>if\<close>s with no final \<open>else\<close>: for
  any other mode the local variables stay unbound and the first read of one of them
  (line 189) raises \<open>UnboundLocalError\<close>.\<close>

definition sample ::
  "probe_graph_adder \<Rightarrow> ase_library \<Rightarrow> randint \<Rightarrow> (nat \<times> nat \<times> nat \<Rightarrow> vec3) \<Rightarrow> atoms
     \<Rightarrow> nat \<times> nat \<times> nat \<Rightarrow> int list \<Rightarrow> string \<Rightarrow> int \<Rightarrow> int \<Rightarrow> error + sampled" where
  "sample self lib rnd grid_pos ats shape host_numbers mode slice_start num_probes =
     (if mode = ''random'' then
        (case rnd (int (total_points shape)) num_probes of
           Inl e \<Rightarrow> Inl e
         | Inr idxs \<Rightarrow> edges_of_indices self lib grid_pos ats shape idxs)
      else if mode = ''slice'' then
        edges_of_indices self lib grid_pos ats shape
          (arange slice_start (slice_start + num_probes))
      else if mode = ''all'' then
        sample_all self lib grid_pos ats shape host_numbers num_probes
      else Inl UnboundLocalError)"

text \<open>Lines 113 to 195: the probe graph computed for a host record.\<close>

definition compute_probe_data ::
  "probe_graph_adder \<Rightarrow> ase_library \<Rightarrow> randint \<Rightarrow> call_args \<Rightarrow> 'a data_object_scheme
     \<Rightarrow> error + probe_data" where
  "compute_probe_data self lib rnd args data_object =
     (let slice_start = (case ca_slice_start args of None \<Rightarrow> pga_slice_start self | Some v \<Rightarrow> v);
          num_probes = (case ca_num_probes args of None \<Rightarrow> pga_num_probes self | Some v \<Rightarrow> v);
          mode = (case ca_mode args of None \<Rightarrow> pga_mode self | Some v \<Rightarrow> v);
          stride = (case ca_stride args of None \<Rightarrow> pga_stride self | Some v \<Rightarrow> v)
      in case Atoms (do_atomic_numbers data_object) (do_pos data_object)
                (do_cell data_object) (True, True, True) of
           Inl e \<Rightarrow> Inl e
         | Inr ats \<Rightarrow>
        (case downsample stride (do_charge_density data_object) of
           Inl e \<Rightarrow> Inl e
         | Inr density \<Rightarrow>
        (let grid_pos = calculate_grid_pos (dg_shape density) (do_cell data_object)
         in case sample self lib rnd grid_pos ats (dg_shape density)
                   (do_atomic_numbers data_object) mode slice_start num_probes of
              Inl e \<Rightarrow> Inl e
            | Inr (probe_edges, probe_offsets, atomic_numbers, probe_pos, probe_choice) \<Rightarrow>
                Inr \<lparr>pd_cell = do_cell data_object,
                     pd_atomic_numbers = atomic_numbers,
                     pd_natoms = length atomic_numbers,
                     pd_pos = do_pos data_object @ probe_pos,
                     pd_target = map (dg_value density) probe_choice,
                     pd_edge_index = Some probe_edges,
                     pd_cell_offsets = Some probe_offsets,
                     pd_neighbors = length probe_edges\<rparr>)))"

text \<open>The test of lines 109 and 110.\<close>

definition precomputed :: "'a data_object_scheme \<Rightarrow> bool" where
  "precomputed data_object =
     (case do_probe_data data_object of
        None \<Rightarrow> False
      | Some pd \<Rightarrow> pd_edge_index pd \<noteq> None \<and> pd_cell_offsets pd \<noteq> None)"

text \<open>\<open>ProbeGraphAdder.__call__\<close> on the store: the host record is the object at reference
  \<open>r\<close>. The call returns a reference and the store it leaves.\<close>

type_synonym 'a store = "nat \<Rightarrow> 'a data_object_scheme option"

definition ProbeGraphAdder_call ::
  "probe_graph_adder \<Rightarrow> ase_library \<Rightarrow> randint \<Rightarrow> call_args \<Rightarrow> nat \<Rightarrow> 'a store
     \<Rightarrow> error + nat \<times> 'a store" where
  "ProbeGraphAdder_call self lib rnd args r st =
     (case st r of
        None \<Rightarrow> Inl AttributeError
      | Some data_object \<Rightarrow>
          if precomputed data_object then Inr (r, st)
          else (case compute_probe_data self lib rnd args data_object of
                  Inl e \<Rightarrow> Inl e
                | Inr probe_data \<Rightarrow>
                    Inr (r, st(r \<mapsto> data_object\<lparr>do_probe_data := Some probe_data\<rparr>))))"

subsection \<open>Components of a block's result\<close>

fun s_edges :: "sampled \<Rightarrow> (nat \<times> nat) list" where
  "s_edges (edges, offsets, numbers, positions, choice) = edges"

fun s_offsets :: "sampled \<Rightarrow> ivec3 list" where
  "s_offsets (edges, offsets, numbers, positions, choice) = offsets"

fun s_pos :: "sampled \<Rightarrow> vec3 list" where
  "s_pos (edges, offsets, numbers, positions, choice) = positions"

fun s_choice :: "sampled \<Rightarrow> (nat \<times> nat \<times> nat) list" where
  "s_choice (edges, offsets, numbers, positions, choice) = choice"

subsection \<open>Row-major order\<close>

text \<open>The flattened index of an index triple in row-major order, and the triples that lie
  in a grid of a given shape. These follow the specification's wording and are what
  \<open>unravel_index\<close> is compared with.\<close>

fun ravel :: "nat \<times> nat \<times> nat \<Rightarrow> nat \<times> nat \<times> nat \<Rightarrow> nat" where
  "ravel (nx, ny, nz) (i, j, k) = (i * ny + j) * nz + k"

fun in_grid :: "nat \<times> nat \<times> nat \<Rightarrow> nat \<times> nat \<times> nat \<Rightarrow> bool" where
  "in_grid (nx, ny, nz) (i, j, k) = (i < nx \<and> j < ny \<and> k < nz)"

subsection \<open>Concrete inputs\<close>

text \<open>A cubic cell of side 1 with one hydrogen atom at the origin and a density grid of
  shape \<open>(1, 1, 10)\<close> whose value at \<open>(i, j, k)\<close> is \<open>k\<close>; an assembler that takes the two
  grid points 1 and 2 as probes, with cutoff \<open>1/4\<close> and the radius graph.\<close>

definition ex_cell :: mat3 where
  "ex_cell = ((1, 0, 0), (0, 1, 0), (0, 0, 1))"

definition ex_host :: data_object where
  "ex_host =
     \<lparr>do_atomic_numbers = [1], do_pos = [(0, 0, 0)], do_cell = ex_cell,
      do_charge_density = \<lparr>dg_shape = (1, 1, 10), dg_value = (\<lambda>(i, j, k). real k)\<rparr>,
      do_probe_data = None\<rparr>"

definition ex_adder :: probe_graph_adder where
  "ex_adder =
     \<lparr>pga_num_probes = 2, pga_cutoff = 1 / 4, pga_include_atomic_edges = False,
      pga_mode = ''slice'', pga_slice_start = 1, pga_stride = 1,
      pga_implementation = ''RGPBC''\<rparr>"

definition no_args :: call_args where
  "no_args = \<lparr>ca_slice_start = None, ca_num_probes = None, ca_mode = None, ca_stride = None\<rparr>"

text \<open>A neighbour list in which position 0 has the single neighbour 1, stored with
  offset \<open>(0, 0, -1)\<close>.\<close>

definition ex_lib :: ase_library where
  "ex_lib = (\<lambda>cutoff pbc cell positions i. if i = 0 then [(1, (0, 0, - 1))] else [])"

definition ex_rnd :: randint where
  "ex_rnd = (\<lambda>high size. Inr [])"

definition ex_pd :: probe_data where
  "ex_pd =
     \<lparr>pd_cell = ex_cell, pd_atomic_numbers = [1, 0, 0], pd_natoms = 3,
      pd_pos = [(0, 0, 0), (0, 0, 1 / 10), (0, 0, 1 / 5)], pd_target = [1, 2],
      pd_edge_index = Some [(0, 1), (0, 2)],
      pd_cell_offsets = Some [(0, 0, 0), (0, 0, 0)],
      pd_neighbors = 2\<rparr>"

definition ex_store :: "unit store" where
  "ex_store = Map.empty(0 \<mapsto> ex_host)"

definition ex_store_done :: "unit store" where
  "ex_store_done = Map.empty(0 \<mapsto> ex_host\<lparr>do_probe_data := Some ex_pd\<rparr>)"


text \<open>The same cell with the atom at the origin and one probe at height \<open>9/10\<close>: the
  probe's image one cell below is at distance \<open>1/10\<close> from the atom. The assembler reaches
  this structure by taking grid point 9 as its only probe.\<close>

definition ex_atoms_far :: atoms where
  "ex_atoms_far =
     \<lparr>at_numbers = [1, 0], at_positions = [(0, 0, 0), (0, 0, 9 / 10)],
      at_cell = ex_cell, at_pbc = (True, True, True)\<rparr>"

definition ex_adder_far :: probe_graph_adder where
  "ex_adder_far = ex_adder\<lparr>pga_slice_start := 9, pga_num_probes := 1\<rparr>"

definition ex_pd_far :: probe_data where
  "ex_pd_far =
     \<lparr>pd_cell = ex_cell, pd_atomic_numbers = [1, 0], pd_natoms = 2,
      pd_pos = [(0, 0, 0), (0, 0, 9 / 10)], pd_target = [9],
      pd_edge_index = Some [], pd_cell_offsets = Some [], pd_neighbors = 0\<rparr>"

text \<open>The same cell with the atom at height \<open>1/2\<close>, for a grid of shape \<open>(1, 1, 5)\<close>
  swept in mode \<open>all\<close> by blocks of two probes: three blocks, the last of one probe.\<close>

definition ex_atoms_mid :: atoms where
  "ex_atoms_mid =
     \<lparr>at_numbers = [1], at_positions = [(0, 0, 1 / 2)], at_cell = ex_cell,
      at_pbc = (True, True, True)\<rparr>"

definition ex_adder_all :: probe_graph_adder where
  "ex_adder_all = ex_adder\<lparr>pga_mode := ''all''\<rparr>"

text \<open>Two atoms that are each other's only neighbour, in the same cell, with a grid of
  shape \<open>(1, 1, 4)\<close> on the cell's edge swept in mode \<open>all\<close> by blocks of two probes, with
  the cell list and atomic edges included. No probe is within the cutoff of an atom.\<close>

definition ex_lib_pair :: ase_library where
  "ex_lib_pair =
     (\<lambda>cutoff pbc cell positions i.
        if i = 0 then [(1, (0, 0, 0))] else if i = 1 then [(0, (0, 0, 0))] else [])"

definition ex_host_pair :: data_object where
  "ex_host_pair =
     \<lparr>do_atomic_numbers = [1, 1],
      do_pos = [(1 / 2, 1 / 2, 0), (1 / 2, 1 / 2, 1 / 10)], do_cell = ex_cell,
      do_charge_density = \<lparr>dg_shape = (1, 1, 4), dg_value = (\<lambda>(i, j, k). real k)\<rparr>,
      do_probe_data = None\<rparr>"

definition ex_atoms_pair :: atoms where
  "ex_atoms_pair =
     \<lparr>at_numbers = [1, 1], at_positions = [(1 / 2, 1 / 2, 0), (1 / 2, 1 / 2, 1 / 10)],
      at_cell = ex_cell, at_pbc = (True, True, True)\<rparr>"

definition ex_adder_pair :: probe_graph_adder where
  "ex_adder_pair =
     \<lparr>pga_num_probes = 2, pga_cutoff = 1 / 4, pga_include_atomic_edges = True,
      pga_mode = ''all'', pga_slice_start = 0, pga_stride = 1,
      pga_implementation = ''ASE''\<rparr>"

definition ex_pd_pair :: probe_data where
  "ex_pd_pair =
     \<lparr>pd_cell = ex_cell, pd_atomic_numbers = [1, 1, 0, 0, 0, 0], pd_natoms = 6,
      pd_pos = [(1 / 2, 1 / 2, 0), (1 / 2, 1 / 2, 1 / 10),
                (0, 0, 0), (0, 0, 1 / 4), (0, 0, 1 / 2), (0, 0, 3 / 4)],
      pd_target = [0, 1, 2, 3],
      pd_edge_index = Some [(0, 1), (1, 0), (0, 3), (1, 2)],
      pd_cell_offsets = Some [(0, 0, 0), (0, 0, 0), (0, 0, 0), (0, 0, 0)],
      pd_neighbors = 4\<rparr>"

subsection \<open>The distance of an edge\<close>

text \<open>The squared length of an edge under the convention of the record: the difference of
  the positions of its first and second end, plus the stored offset taken through the cell.
  The radius graph stores the negated translation (``fix offset direction''), and
  \<open>get_neighbors\<close> of the cell-list wrapper negates the library's offset for the same
  convention.\<close>

definition edge_distance_sqr :: "mat3 \<Rightarrow> vec3 list \<Rightarrow> nat \<times> nat \<Rightarrow> ivec3 \<Rightarrow> real" where
  "edge_distance_sqr cell positions e offset =
     (let d = vadd (vsub (positions ! fst e) (positions ! snd e))
                   (vec_mat (of_ivec offset) cell)
      in vdot d d)"

section \<open>Evaluation of the concrete inputs\<close>

lemma ceiling_quarter: "\<lceil>1 / 4 :: real\<rceil> = 1"
  by (simp add: ceiling_eq_iff)

lemma unit_cells_110:
  "unit_cells 1 1 0 =
     [(- 1, - 1, 0), (- 1, 0, 0), (- 1, 1, 0), (0, - 1, 0), (0, 0, 0), (0, 1, 0),
      (1, - 1, 0), (1, 0, 0), (1, 1, 0)]"
  by (simp add: unit_cells_def arange_def upto.simps)

lemma ex_rg:
  "RadiusGraphPBCWrapper (1 / 4)
     \<lparr>at_numbers = [1, 0, 0], at_positions = [(0, 0, 0), (0, 0, 1 / 10), (0, 0, 1 / 5)],
      at_cell = ex_cell, at_pbc = (True, True, True)\<rparr>
     (True, True, False)
   = Inr \<lparr>rg_cutoff = 1 / 4, rg_edge_index = [(0, 1), (0, 2)],
          rg_offsets = [(0, 0, 0), (0, 0, 0)]\<rparr>"
  by (simp add: RadiusGraphPBCWrapper_def ex_cell_def rep_axis_def norm2_def ceiling_quarter
        unit_cells_110 rg_triples_def mask_def atom_distance_sqr_def upt_rec)

lemma ex_compute: "compute_probe_data ex_adder lib rnd no_args ex_host = Inr ex_pd"
  using ex_rg
  by (simp add: compute_probe_data_def ex_adder_def no_args_def ex_host_def Atoms_def
        downsample_def sample_def edges_of_indices_def arange_def upto.simps
        get_edges_from_choice_def ex_cell_def rg_get_all_neighbors_def ex_pd_def)

section \<open>The precomputed short cut and the frame of the assembler\<close>

lemma call_precomputed:
  "st r = Some d \<Longrightarrow> precomputed d \<Longrightarrow>
     ProbeGraphAdder_call self lib rnd args r st = Inr (r, st)"
  by (simp add: ProbeGraphAdder_call_def)

lemma compute_probe_data_complete:
  assumes "compute_probe_data self lib rnd args d = Inr pd"
  shows "pd_edge_index pd \<noteq> None \<and> pd_cell_offsets pd \<noteq> None"
  using assms unfolding compute_probe_data_def Let_def
  by (auto split: sum.splits prod.splits)

lemma call_result_precomputed:
  assumes "ProbeGraphAdder_call self lib rnd args r st = Inr (r', st')"
  shows "r' = r \<and> (\<exists>d'. st' r = Some d' \<and> precomputed d')"
proof (cases "st r")
  case None
  with assms show ?thesis by (simp add: ProbeGraphAdder_call_def)
next
  case (Some d)
  show ?thesis
  proof (cases "precomputed d")
    case True
    with Some assms show ?thesis by (simp add: ProbeGraphAdder_call_def)
  next
    case False
    with Some assms obtain pd where pd: "compute_probe_data self lib rnd args d = Inr pd"
      and res: "r' = r" "st' = st(r \<mapsto> d\<lparr>do_probe_data := Some pd\<rparr>)"
      by (auto simp: ProbeGraphAdder_call_def split: sum.splits)
    from compute_probe_data_complete [OF pd] res show ?thesis
      by (simp add: precomputed_def)
  qed
qed

text \<open>Whatever the first call did, a call on its result changes nothing, under any
  configuration.\<close>

lemma call_twice:
  assumes "ProbeGraphAdder_call self lib rnd args r st = Inr (r', st')"
  shows "ProbeGraphAdder_call self2 lib2 rnd2 args2 r' st' = Inr (r', st')"
proof -
  from call_result_precomputed [OF assms] obtain d' where
    "st' r' = Some d'" "precomputed d'"
    by auto
  then show ?thesis by (rule call_precomputed)
qed

text \<open>
  Claim C4 (assembler idempotence). A host record that already carries a probe graph with
  both \<open>edge_index\<close> and \<open>cell_offsets\<close> present is returned as it is: the call gives back
  the same reference and the same store, and so does a second call on that result.
\<close>

theorem assembler_idempotent:
  assumes "st r = Some d" and "precomputed d"
  shows "ProbeGraphAdder_call self lib rnd args r st = Inr (r, st)
       \<and> (\<forall>r' st'. ProbeGraphAdder_call self lib rnd args r st = Inr (r', st')
            \<longrightarrow> ProbeGraphAdder_call self lib rnd args r' st' = Inr (r', st'))"
  using assms by (simp add: ProbeGraphAdder_call_def)

theorem assembler_idempotent_witness:
  "ex_store_done 0 = Some (ex_host\<lparr>do_probe_data := Some ex_pd\<rparr>)
   \<and> precomputed (ex_host\<lparr>do_probe_data := Some ex_pd\<rparr>)
   \<and> ProbeGraphAdder_call ex_adder ex_lib ex_rnd no_args 0 ex_store_done
       = Inr (0, ex_store_done)"
proof -
  have h1: "ex_store_done 0 = Some (ex_host\<lparr>do_probe_data := Some ex_pd\<rparr>)"
    by (simp add: ex_store_done_def)
  have h2: "precomputed (ex_host\<lparr>do_probe_data := Some ex_pd\<rparr>)"
    by (simp add: precomputed_def ex_pd_def)
  from assembler_idempotent [where st = ex_store_done and r = 0 and self = ex_adder
      and lib = ex_lib and rnd = ex_rnd and args = no_args, OF h1 h2] h1 h2
  show ?thesis by simp
qed

text \<open>
  Claim C10 (frame of the assembler). When the assembler computes a new probe graph, it
  returns the reference it was given; the store differs only at that reference, and the
  record there differs from the old one only in \<open>probe_data\<close>: atomic numbers, positions,
  cell, charge density and every further attribute are the old ones.
\<close>

theorem assembler_frame:
  assumes "st r = Some d" and "\<not> precomputed d"
    and "ProbeGraphAdder_call self lib rnd args r st = Inr (r', st')"
  shows "r' = r
       \<and> (\<exists>pd. st' = st(r \<mapsto> d\<lparr>do_probe_data := Some pd\<rparr>))
       \<and> (\<forall>q. q \<noteq> r \<longrightarrow> st' q = st q)
       \<and> (\<exists>d'. st' r = Some d'
            \<and> do_atomic_numbers d' = do_atomic_numbers d
            \<and> do_pos d' = do_pos d
            \<and> do_cell d' = do_cell d
            \<and> do_charge_density d' = do_charge_density d
            \<and> data_object.more d' = data_object.more d)"
  using assms
  by (auto simp: ProbeGraphAdder_call_def split: sum.splits)

theorem assembler_frame_witness:
  "ex_store 0 = Some ex_host \<and> \<not> precomputed ex_host
   \<and> ProbeGraphAdder_call ex_adder ex_lib ex_rnd no_args 0 ex_store
       = Inr (0, ex_store(0 \<mapsto> ex_host\<lparr>do_probe_data := Some ex_pd\<rparr>))
   \<and> (ex_store(0 \<mapsto> ex_host\<lparr>do_probe_data := Some ex_pd\<rparr>)) 1 = ex_store 1"
proof -
  have h1: "ex_store 0 = Some ex_host" by (simp add: ex_store_def)
  have h2: "\<not> precomputed ex_host" by (simp add: precomputed_def ex_host_def)
  have h3: "ProbeGraphAdder_call ex_adder ex_lib ex_rnd no_args 0 ex_store
       = Inr (0, ex_store(0 \<mapsto> ex_host\<lparr>do_probe_data := Some ex_pd\<rparr>))"
    by (simp add: ProbeGraphAdder_call_def h1 h2 ex_compute)
  from assembler_frame [where st = ex_store and r = 0, OF h1 h2 h3] h1 h2 h3
  show ?thesis by simp
qed

section \<open>The sampling mode\<close>

lemma sample_unsupported:
  "mode \<notin> {''random'', ''slice'', ''all''} \<Longrightarrow>
     sample self lib rnd grid_pos ats shape host_numbers mode slice_start num_probes
       = Inl UnboundLocalError"
  by (simp add: sample_def)

lemma compute_unsupported:
  assumes "(case ca_mode args of None \<Rightarrow> pga_mode self | Some v \<Rightarrow> v) \<notin> {''random'', ''slice'', ''all''}"
  shows "compute_probe_data self lib rnd args d \<in> {Inl ValueError, Inl AssertionError, Inl UnboundLocalError}"
  using assms unfolding compute_probe_data_def Let_def
  by (auto simp: sample_unsupported Atoms_def downsample_def split: sum.splits)

text \<open>
  Claim C8 (unsupported sampling mode), as stated: every call with a mode outside
  \<open>random\<close>, \<open>slice\<close>, \<open>all\<close> is reported and produces no record. It fails on a host
  record that already carries a complete probe graph: the precomputed test comes before
  the mode is read, and the call returns the record.
\<close>

theorem unsupported_mode_precomputed_counterexample:
  "''cube'' \<notin> {''random'', ''slice'', ''all''}
   \<and> ProbeGraphAdder_call (ex_adder\<lparr>pga_mode := ''cube''\<rparr>) ex_lib ex_rnd no_args 0 ex_store_done
       = Inr (0, ex_store_done)"
  by (simp add: ProbeGraphAdder_call_def ex_store_done_def precomputed_def ex_pd_def)

text \<open>
  Claim C8, amended: with a mode outside \<open>random\<close>, \<open>slice\<close>, \<open>all\<close>, a call on a host
  record that does not yet carry a complete probe graph fails: it produces no record and
  falls back on no other mode.
\<close>

theorem unsupported_mode_fails:
  assumes "(case ca_mode args of None \<Rightarrow> pga_mode self | Some v \<Rightarrow> v) \<notin> {''random'', ''slice'', ''all''}"
    and "st r = Some d" and "\<not> precomputed d"
  shows "\<exists>e. ProbeGraphAdder_call self lib rnd args r st = Inl e"
  using compute_unsupported [OF assms(1), of lib rnd d] assms(2,3)
  by (auto simp: ProbeGraphAdder_call_def)

theorem unsupported_mode_fails_witness:
  "ex_store 0 = Some ex_host \<and> \<not> precomputed ex_host
   \<and> ProbeGraphAdder_call (ex_adder\<lparr>pga_mode := ''cube''\<rparr>) ex_lib ex_rnd no_args 0 ex_store
       = Inl UnboundLocalError"
proof -
  have h1: "ex_store 0 = Some ex_host" by (simp add: ex_store_def)
  have h2: "\<not> precomputed ex_host" by (simp add: precomputed_def ex_host_def)
  have h0: "(case ca_mode no_args of None \<Rightarrow> pga_mode (ex_adder\<lparr>pga_mode := ''cube''\<rparr>) | Some v \<Rightarrow> v)
      \<notin> {''random'', ''slice'', ''all''}"
    by (simp add: no_args_def)
  from unsupported_mode_fails [where st = ex_store and r = 0, OF h0 h1 h2, of ex_lib ex_rnd]
  obtain e where e: "ProbeGraphAdder_call (ex_adder\<lparr>pga_mode := ''cube''\<rparr>) ex_lib ex_rnd no_args 0 ex_store = Inl e"
    by blast
  have hc: "compute_probe_data (ex_adder\<lparr>pga_mode := ''cube''\<rparr>) ex_lib ex_rnd no_args ex_host
       = Inl UnboundLocalError"
    by (simp add: compute_probe_data_def ex_adder_def no_args_def
         ex_host_def Atoms_def downsample_def sample_def)
  have "ProbeGraphAdder_call (ex_adder\<lparr>pga_mode := ''cube''\<rparr>) ex_lib ex_rnd no_args 0 ex_store
       = Inl UnboundLocalError"
    by (simp add: ProbeGraphAdder_call_def h1 h2 hc)
  with h1 h2 e show ?thesis by simp
qed


section \<open>The cell-list wrapper\<close>

lemma ase_far_wrapper:
  "AseNeighborListWrapper ex_lib c ex_atoms_far =
     \<lparr>aw_neighborlist = (\<lambda>i. if i = 0 then [(1, (0, 0, - 1))] else []), aw_cutoff = c,
      aw_num_atoms = 1, aw_atomic_numbers = [1, 0]\<rparr>"
  by (simp add: AseNeighborListWrapper_def ex_lib_def ex_atoms_far_def)

lemma ase_far_all: "ase_get_all_neighbors (AseNeighborListWrapper ex_lib c ex_atoms_far) c' False
   = Inr ([(0, 1)], [(0, 0, - 1)])"
  by (simp add: ase_far_wrapper ase_get_all_neighbors_def ase_row_def)

lemma ase_get_all_neighbors_ignores_cutoff:
  "ase_get_all_neighbors w c iae = ase_get_all_neighbors w c' iae"
  by (simp add: ase_get_all_neighbors_def)

lemma rg_get_all_neighbors_checks_cutoff:
  "cutoff \<noteq> rg_cutoff w \<Longrightarrow> rg_get_all_neighbors w cutoff iae = Inl AssertionError"
  by (simp add: rg_get_all_neighbors_def)

text \<open>
  Claim C3 (offset sign of the cell-list strategy). The claim asks for the negated library
  offset in the result of \<open>get_all_neighbors\<close>. On the neighbour list whose entry for atom
  0 is neighbour 1 with offset \<open>(0, 0, -1)\<close>, \<open>get_all_neighbors\<close> returns the offset as
  the library stored it, while \<open>get_neighbors\<close> returns it negated.
\<close>

theorem ase_offsets_not_negated:
  "ase_get_all_neighbors (AseNeighborListWrapper ex_lib (1 / 4) ex_atoms_far) (1 / 4) False
     = Inr ([(0, 1)], [(0, 0, - 1)])
   \<and> ase_get_neighbors (AseNeighborListWrapper ex_lib (1 / 4) ex_atoms_far) 0 (1 / 4)
     = Inr ([1], [(0, 0, 1)])"
  by (simp add: ase_far_all) (simp add: ase_far_wrapper ase_get_neighbors_def)

text \<open>
  Claim C6 (one cutoff per wrapper). The claim asks for an error when \<open>get_all_neighbors\<close>
  is given another cutoff than the wrapper was built with. The cell-list wrapper built
  with cutoff \<open>1/4\<close> answers a query with cutoff 5 as if nothing differed;
  \<open>get_neighbors\<close> of the same wrapper raises the assertion.
\<close>

theorem ase_cutoff_unchecked:
  "ase_get_all_neighbors (AseNeighborListWrapper ex_lib (1 / 4) ex_atoms_far) 5 False
     = Inr ([(0, 1)], [(0, 0, - 1)])
   \<and> ase_get_neighbors (AseNeighborListWrapper ex_lib (1 / 4) ex_atoms_far) 0 5
     = Inl AssertionError"
  by (simp add: ase_far_all) (simp add: ase_far_wrapper ase_get_neighbors_def)

section \<open>Distances of the edges\<close>

lemma rg_triples_iff:
  "(a, p, u) \<in> set (rg_triples radius cell positions atom_idx probe_idx cells) \<longleftrightarrow>
     a \<in> set atom_idx \<and> p \<in> set probe_idx \<and> u \<in> set cells
     \<and> mask radius cell (positions ! a) (positions ! p) u"
  by (auto simp: rg_triples_def)

lemma edge_distance_ineg:
  "edge_distance_sqr cell positions (a, p) (ineg u)
     = atom_distance_sqr cell (positions ! a) (positions ! p) u"
proof -
  obtain a1 a2 a3 where c: "cell = (a1, a2, a3)" by (cases cell) auto
  obtain x1 y1 z1 where p1: "positions ! a = (x1, y1, z1)" by (cases "positions ! a") auto
  obtain x2 y2 z2 where p2: "positions ! p = (x2, y2, z2)" by (cases "positions ! p") auto
  obtain i j k where u: "u = (i, j, k)" by (cases u) auto
  obtain a11 a12 a13 where r1: "a1 = (a11, a12, a13)" by (cases a1) auto
  obtain a21 a22 a23 where r2: "a2 = (a21, a22, a23)" by (cases a2) auto
  obtain a31 a32 a33 where r3: "a3 = (a31, a32, a33)" by (cases a3) auto
  show ?thesis
    by (simp add: edge_distance_sqr_def atom_distance_sqr_def c p1 p2 u r1 r2 r3 algebra_simps)
qed

lemma rg_kept:
  assumes "RadiusGraphPBCWrapper radius ats pbc = Inr w"
  shows "\<exists>kept. rg_edge_index w = map (\<lambda>(a, p, u). (a, p)) kept
           \<and> rg_offsets w = map (\<lambda>(a, p, u). ineg u) kept
           \<and> rg_cutoff w = radius
           \<and> (\<forall>(a, p, u) \<in> set kept.
                 a < length (at_numbers ats) \<and> at_numbers ats ! a \<noteq> 0
               \<and> p < length (at_numbers ats) \<and> at_numbers ats ! p = 0
               \<and> mask radius (at_cell ats) (at_positions ats ! a) (at_positions ats ! p) u)"
  using assms unfolding RadiusGraphPBCWrapper_def Let_def
  by (auto split: prod.splits sum.splits simp: rg_triples_iff)

lemma radius_graph_edge_distance:
  assumes "RadiusGraphPBCWrapper radius ats pbc = Inr w"
  shows "length (rg_offsets w) = length (rg_edge_index w)
       \<and> (\<forall>n < length (rg_edge_index w).
            0.0001 < edge_distance_sqr (at_cell ats) (at_positions ats)
                       (rg_edge_index w ! n) (rg_offsets w ! n)
          \<and> edge_distance_sqr (at_cell ats) (at_positions ats)
                       (rg_edge_index w ! n) (rg_offsets w ! n) \<le> radius * radius)"
proof -
  from rg_kept [OF assms] obtain kept where
    e: "rg_edge_index w = map (\<lambda>(a, p, u). (a, p)) kept"
    and o: "rg_offsets w = map (\<lambda>(a, p, u). ineg u) kept"
    and k: "\<forall>(a, p, u) \<in> set kept.
              mask radius (at_cell ats) (at_positions ats ! a) (at_positions ats ! p) u"
    by fastforce
  have "0.0001 < edge_distance_sqr (at_cell ats) (at_positions ats)
                       (rg_edge_index w ! n) (rg_offsets w ! n)
          \<and> edge_distance_sqr (at_cell ats) (at_positions ats)
                       (rg_edge_index w ! n) (rg_offsets w ! n) \<le> radius * radius"
    if n: "n < length (rg_edge_index w)" for n
  proof -
    from n e have nk: "n < length kept" by simp
    obtain a p u where t: "kept ! n = (a, p, u)" by (cases "kept ! n") auto
    from nk t have "(a, p, u) \<in> set kept" by (metis nth_mem)
    with k have "mask radius (at_cell ats) (at_positions ats ! a) (at_positions ats ! p) u"
      by auto
    then show ?thesis
      using nk t by (simp add: e o edge_distance_ineg mask_def)
  qed
  then show ?thesis by (simp add: e o)
qed

text \<open>
  Claim C2 (distance of every edge). The edges of the radius graph are within the cutoff
  (\<open>radius_graph_edge_distance\<close>). The cell-list strategy returns the library's offset
  without the sign change: for the probe at height \<open>9/10\<close>, whose image one cell below is
  the atom's neighbour, the stored offset \<open>(0, 0, -1)\<close> gives the squared distance
  \<open>361/100\<close>, beyond the squared cutoff \<open>1/16\<close>; the negated offset gives \<open>1/100\<close>.
\<close>

theorem ase_edge_distance_outside:
  "ase_get_all_neighbors (AseNeighborListWrapper ex_lib (1 / 4) ex_atoms_far) (1 / 4) False
     = Inr ([(0, 1)], [(0, 0, - 1)])
   \<and> edge_distance_sqr ex_cell (at_positions ex_atoms_far) (0, 1) (0, 0, - 1) = 361 / 100
   \<and> \<not> edge_distance_sqr ex_cell (at_positions ex_atoms_far) (0, 1) (0, 0, - 1) \<le> (1 / 4) * (1 / 4)
   \<and> edge_distance_sqr ex_cell (at_positions ex_atoms_far) (0, 1) (0, 0, 1) = 1 / 100"
  by (simp add: ase_far_all) (simp add: edge_distance_sqr_def ex_atoms_far_def ex_cell_def)

section \<open>Completeness of the radius graph\<close>

lemma unit_cells_111:
  "unit_cells 1 1 1 =
     [(- 1, - 1, - 1), (- 1, - 1, 0), (- 1, - 1, 1), (- 1, 0, - 1), (- 1, 0, 0), (- 1, 0, 1),
      (- 1, 1, - 1), (- 1, 1, 0), (- 1, 1, 1),
      (0, - 1, - 1), (0, - 1, 0), (0, - 1, 1), (0, 0, - 1), (0, 0, 0), (0, 0, 1),
      (0, 1, - 1), (0, 1, 0), (0, 1, 1),
      (1, - 1, - 1), (1, - 1, 0), (1, - 1, 1), (1, 0, - 1), (1, 0, 0), (1, 0, 1),
      (1, 1, - 1), (1, 1, 0), (1, 1, 1)]"
  by (simp add: unit_cells_def arange_def upto.simps)

lemma rg_far_default:
  "RadiusGraphPBCWrapper (1 / 4) ex_atoms_far (True, True, False)
   = Inr \<lparr>rg_cutoff = 1 / 4, rg_edge_index = [], rg_offsets = []\<rparr>"
  by (simp add: RadiusGraphPBCWrapper_def ex_atoms_far_def ex_cell_def rep_axis_def norm2_def
        ceiling_quarter unit_cells_110 rg_triples_def mask_def atom_distance_sqr_def upt_rec)

lemma rg_far_periodic:
  "RadiusGraphPBCWrapper (1 / 4) ex_atoms_far (True, True, True)
   = Inr \<lparr>rg_cutoff = 1 / 4, rg_edge_index = [(0, 1)], rg_offsets = [(0, 0, 1)]\<rparr>"
  by (simp add: RadiusGraphPBCWrapper_def ex_atoms_far_def ex_cell_def rep_axis_def norm2_def
        ceiling_quarter unit_cells_111 rg_triples_def mask_def atom_distance_sqr_def upt_rec)

lemma ex_compute_far: "compute_probe_data ex_adder_far lib rnd no_args ex_host = Inr ex_pd_far"
  using rg_far_default
  by (simp add: compute_probe_data_def ex_adder_far_def ex_adder_def no_args_def ex_host_def
        Atoms_def downsample_def sample_def edges_of_indices_def arange_def upto.simps
        get_edges_from_choice_def ex_cell_def rg_get_all_neighbors_def ex_pd_far_def
        ex_atoms_far_def)

lemma rg_isolated_atom:
  "RadiusGraphPBCWrapper (1 / 4)
     \<lparr>at_numbers = [1, 0], at_positions = [(0, 0, 0), (0, 0, 1 / 8)], at_cell = ex_cell,
      at_pbc = (True, True, True)\<rparr> (True, True, False)
   = Inr \<lparr>rg_cutoff = 1 / 4, rg_edge_index = [(0, 1)], rg_offsets = [(0, 0, 0)]\<rparr>"
  "RadiusGraphPBCWrapper (1 / 4)
     \<lparr>at_numbers = [1, 0], at_positions = [(0, 0, 0), (0, 0, 1 / 2)], at_cell = ex_cell,
      at_pbc = (True, True, True)\<rparr> (True, True, False)
   = Inr \<lparr>rg_cutoff = 1 / 4, rg_edge_index = [], rg_offsets = []\<rparr>"
  by (simp_all add: RadiusGraphPBCWrapper_def ex_cell_def rep_axis_def norm2_def
        ceiling_quarter unit_cells_110 rg_triples_def mask_def atom_distance_sqr_def upt_rec)


text \<open>
  Claim C1 (completeness of the neighbour search). The assembler builds the atoms periodic
  along all three axes, and the radius graph is built with its default flags, periodic
  along the first two only. With the atom at the origin, the probe at grid point 9
  (height \<open>9/10\<close>) and cutoff \<open>1/4\<close>, the assembler returns no edge, although the probe's
  image one cell below is at squared distance \<open>1/100\<close> of the atom, inside the accepted
  interval; the same wrapper with all three flags set returns that edge.
\<close>

theorem radius_graph_misses_third_axis:
  "compute_probe_data ex_adder_far ex_lib ex_rnd no_args ex_host = Inr ex_pd_far
   \<and> pd_edge_index ex_pd_far = Some []
   \<and> atom_distance_sqr ex_cell (0, 0, 0) (0, 0, 9 / 10) (0, 0, - 1) = 1 / 100
   \<and> mask (1 / 4) ex_cell (0, 0, 0) (0, 0, 9 / 10) (0, 0, - 1)
   \<and> RadiusGraphPBCWrapper (1 / 4) ex_atoms_far (True, True, True)
       = Inr \<lparr>rg_cutoff = 1 / 4, rg_edge_index = [(0, 1)], rg_offsets = [(0, 0, 1)]\<rparr>"
  by (simp add: ex_compute_far rg_far_periodic)
     (simp add: ex_pd_far_def mask_def atom_distance_sqr_def ex_cell_def)


section \<open>The species at the ends of an edge\<close>










section \<open>Selection of the probes in mode \<open>slice\<close>\<close>

lemma unravel1_ravel:
  assumes "unravel1 shape idx = Inr t"
  shows "in_grid shape t \<and> int (ravel shape t) = idx"
proof -
  obtain nx ny nz where sh: "shape = (nx, ny, nz)" by (cases shape) auto
  define m where "m = nat idx"
  from assms sh have lo: "0 \<le> idx" and hi': "idx < int (nx * ny * nz)"
    and t: "t = (m div (ny * nz), (m div nz) mod ny, m mod nz)"
    by (auto simp: m_def split: if_splits)
  from lo hi' have hi: "m < nx * ny * nz" unfolding m_def by linarith
  from hi have pos: "0 < nx" "0 < ny" "0 < nz" by (cases nx; cases ny; cases nz; simp)+
  have "m < nx * (ny * nz)" using hi by (simp add: mult.assoc)
  then have i: "m div (ny * nz) < nx"
    using pos by (simp add: less_mult_imp_div_less mult.commute)
  have "m div (nz * ny) = (m div nz) div ny" by (rule div_mult2_eq)
  then have d: "m div (ny * nz) = (m div nz) div ny" by (simp only: mult.commute)
  have "(m div (ny * nz) * ny + (m div nz) mod ny) * nz + m mod nz = m"
    by (simp add: d)
  with i pos lo show ?thesis by (simp add: sh t m_def)
qed

lemma unravel_index_nth:
  assumes "unravel_index idxs shape = Inr pc"
  shows "length pc = length idxs \<and> (\<forall>m < length idxs. unravel1 shape (idxs ! m) = Inr (pc ! m))"
  using assms
proof (induction idxs arbitrary: pc)
  case Nil
  then show ?case by simp
next
  case (Cons idx rest)
  from Cons.prems obtain t ts where t: "unravel1 shape idx = Inr t"
    and ts: "unravel_index rest shape = Inr ts" and pc: "pc = t # ts"
    by (auto split: sum.splits)
  from Cons.IH [OF ts] t pc show ?case by (auto simp: nth_Cons split: nat.splits)
qed

lemma unravel_index_total:
  assumes "\<forall>idx \<in> set idxs. 0 \<le> idx \<and> idx < int (total_points shape)"
  shows "\<exists>pc. unravel_index idxs shape = Inr pc"
  using assms
proof (induction idxs)
  case Nil
  then show ?case by simp
next
  case (Cons idx rest)
  obtain nx ny nz where sh: "shape = (nx, ny, nz)" by (cases shape) auto
  from Cons.prems sh have "\<exists>t. unravel1 shape idx = Inr t" by auto
  moreover from Cons have "\<exists>ts. unravel_index rest shape = Inr ts" by simp
  ultimately show ?case by auto
qed

lemma length_arange: "length (arange a b) = nat (b - a)"
  by (simp add: arange_def)

lemma nth_arange: "m < nat (b - a) \<Longrightarrow> arange a b ! m = a + int m"
  by (simp add: arange_def)

lemma set_arange: "set (arange a b) = {a..<b}"
  by (auto simp: arange_def)

lemma unravel_index_arange:
  assumes "0 \<le> S" and "0 \<le> N" and "S + N \<le> int (total_points shape)"
  shows "\<exists>pc. unravel_index (arange S (S + N)) shape = Inr pc \<and> length pc = nat N
           \<and> (\<forall>m < nat N. in_grid shape (pc ! m) \<and> ravel shape (pc ! m) = nat S + m)"
proof -
  have "\<forall>idx \<in> set (arange S (S + N)). 0 \<le> idx \<and> idx < int (total_points shape)"
    using assms by (auto simp: set_arange)
  from unravel_index_total [OF this] obtain pc where
    pc: "unravel_index (arange S (S + N)) shape = Inr pc" by blast
  from unravel_index_nth [OF pc]
  have len: "length pc = nat N"
    and nth: "\<forall>m < nat N. unravel1 shape (arange S (S + N) ! m) = Inr (pc ! m)"
    by (simp_all add: length_arange)
  have "in_grid shape (pc ! m) \<and> ravel shape (pc ! m) = nat S + m" if m: "m < nat N" for m
  proof -
    from nth m have "unravel1 shape (S + int m) = Inr (pc ! m)" by (simp add: nth_arange)
    from unravel1_ravel [OF this] assms(1) show ?thesis by auto
  qed
  with pc len show ?thesis by blast
qed


lemma get_edges_from_choice_probes:
  assumes "get_edges_from_choice self lib probe_choice grid_pos ats iae
             = Inr (edge_index, cell_offsets, atomic_numbers, probe_pos)"
  shows "probe_pos = map grid_pos probe_choice
       \<and> atomic_numbers = at_numbers ats @ replicate (length probe_choice) 0"
  using assms
  by (auto simp: get_edges_from_choice_def Let_def split: if_splits sum.splits prod.splits)

lemma edges_of_indices_probes:
  assumes "edges_of_indices self lib grid_pos ats shape idxs
             = Inr (probe_edges, probe_offsets, atomic_numbers, probe_pos, probe_choice)"
  shows "unravel_index idxs shape = Inr probe_choice
       \<and> probe_pos = map grid_pos probe_choice
       \<and> atomic_numbers = at_numbers ats @ replicate (length probe_choice) 0"
proof -
  from assms have u: "unravel_index idxs shape = Inr probe_choice"
    and g: "get_edges_from_choice self lib probe_choice grid_pos ats
              (pga_include_atomic_edges self)
            = Inr (probe_edges, probe_offsets, atomic_numbers, probe_pos)"
    by (auto simp: edges_of_indices_def split: sum.splits prod.splits)
  from u get_edges_from_choice_probes [OF g] show ?thesis by simp
qed

text \<open>
  Claim C7 (selection in mode \<open>slice\<close>). With slice start \<open>S \<ge> 0\<close> and \<open>N \<ge> 0\<close> probes
  such that \<open>S + N\<close> does not exceed the number of grid points, the unravelling of the
  indices \<open>S, ..., S + N - 1\<close> succeeds; its \<open>m\<close>-th triple lies in the grid and has the
  row-major flattened index \<open>S + m\<close>; and whenever the assembler returns a probe graph,
  its targets are the density values at exactly those triples, in that order, and its
  probe positions are the grid positions of those triples.
\<close>

theorem slice_mode_selection:
  assumes "(case ca_mode args of None \<Rightarrow> pga_mode self | Some v \<Rightarrow> v) = ''slice''"
    and "(case ca_slice_start args of None \<Rightarrow> pga_slice_start self | Some v \<Rightarrow> v) = S"
    and "(case ca_num_probes args of None \<Rightarrow> pga_num_probes self | Some v \<Rightarrow> v) = N"
    and "downsample (case ca_stride args of None \<Rightarrow> pga_stride self | Some v \<Rightarrow> v)
           (do_charge_density d) = Inr density"
    and "0 \<le> S" and "0 \<le> N" and "S + N \<le> int (total_points (dg_shape density))"
  shows "\<exists>pc. unravel_index (arange S (S + N)) (dg_shape density) = Inr pc
           \<and> length pc = nat N
           \<and> (\<forall>m < nat N. in_grid (dg_shape density) (pc ! m)
                          \<and> ravel (dg_shape density) (pc ! m) = nat S + m)
           \<and> (\<forall>pd. compute_probe_data self lib rnd args d = Inr pd \<longrightarrow>
                  pd_target pd = map (dg_value density) pc
                \<and> pd_pos pd
                    = do_pos d @ map (calculate_grid_pos (dg_shape density) (do_cell d)) pc
                \<and> pd_atomic_numbers pd = do_atomic_numbers d @ replicate (nat N) 0)"
proof -
  from unravel_index_arange [OF assms(5,6,7)] obtain pc where
    pc: "unravel_index (arange S (S + N)) (dg_shape density) = Inr pc"
    and len: "length pc = nat N"
    and rm: "\<forall>m < nat N. in_grid (dg_shape density) (pc ! m)
                          \<and> ravel (dg_shape density) (pc ! m) = nat S + m"
    by blast
  have "pd_target pd = map (dg_value density) pc
      \<and> pd_pos pd = do_pos d @ map (calculate_grid_pos (dg_shape density) (do_cell d)) pc
      \<and> pd_atomic_numbers pd = do_atomic_numbers d @ replicate (nat N) 0"
    if c: "compute_probe_data self lib rnd args d = Inr pd" for pd
  proof -
    from c assms(1-4) obtain ats pe po an pp pch where
      ats: "Atoms (do_atomic_numbers d) (do_pos d) (do_cell d) (True, True, True) = Inr ats"
      and e: "edges_of_indices self lib (calculate_grid_pos (dg_shape density) (do_cell d)) ats
                (dg_shape density) (arange S (S + N)) = Inr (pe, po, an, pp, pch)"
      and pd: "pd_target pd = map (dg_value density) pch" "pd_pos pd = do_pos d @ pp"
              "pd_atomic_numbers pd = an"
      unfolding compute_probe_data_def Let_def sample_def
      by (auto split: sum.splits prod.splits)
    from ats have n: "at_numbers ats = do_atomic_numbers d"
      by (auto simp: Atoms_def split: if_splits)
    from edges_of_indices_probes [OF e] pc have "pch = pc"
      and "pp = map (calculate_grid_pos (dg_shape density) (do_cell d)) pc"
      and "an = at_numbers ats @ replicate (length pc) 0"
      by simp_all
    with pd n len show ?thesis by simp
  qed
  with pc len rm show ?thesis by blast
qed

theorem slice_mode_selection_witness:
  "downsample 1 (do_charge_density ex_host) = Inr (do_charge_density ex_host)
   \<and> (1::int) + 2 \<le> int (total_points (dg_shape (do_charge_density ex_host)))
   \<and> unravel_index (arange 1 (1 + 2)) (dg_shape (do_charge_density ex_host))
       = Inr [(0, 0, 1), (0, 0, 2)]
   \<and> ravel (1, 1, 10) (0, 0, 1) = 1 \<and> ravel (1, 1, 10) (0, 0, 2) = 2
   \<and> compute_probe_data ex_adder ex_lib ex_rnd no_args ex_host = Inr ex_pd
   \<and> pd_target ex_pd = map (dg_value (do_charge_density ex_host)) [(0, 0, 1), (0, 0, 2)]
   \<and> pd_target ex_pd = [1, 2]"
proof -
  have h1: "(case ca_mode no_args of None \<Rightarrow> pga_mode ex_adder | Some v \<Rightarrow> v) = ''slice''"
    by (simp add: no_args_def ex_adder_def)
  have h2: "(case ca_slice_start no_args of None \<Rightarrow> pga_slice_start ex_adder | Some v \<Rightarrow> v) = 1"
    by (simp add: no_args_def ex_adder_def)
  have h3: "(case ca_num_probes no_args of None \<Rightarrow> pga_num_probes ex_adder | Some v \<Rightarrow> v) = 2"
    by (simp add: no_args_def ex_adder_def)
  have h4: "downsample (case ca_stride no_args of None \<Rightarrow> pga_stride ex_adder | Some v \<Rightarrow> v)
           (do_charge_density ex_host) = Inr (do_charge_density ex_host)"
    by (simp add: no_args_def ex_adder_def downsample_def)
  have h5: "(0::int) \<le> 1" and h6: "(0::int) \<le> 2" by simp_all
  have h7: "(1::int) + 2 \<le> int (total_points (dg_shape (do_charge_density ex_host)))"
    by (simp add: ex_host_def)
  have u: "unravel_index (arange 1 (1 + 2)) (dg_shape (do_charge_density ex_host))
       = Inr [(0, 0, 1), (0, 0, 2)]"
    by (simp add: ex_host_def arange_def upto.simps)
  have c: "compute_probe_data ex_adder ex_lib ex_rnd no_args ex_host = Inr ex_pd"
    by (rule ex_compute)
  from slice_mode_selection [OF h1 h2 h3 h4 h5 h6 h7, of ex_lib ex_rnd] u c
  have t: "pd_target ex_pd = map (dg_value (do_charge_density ex_host)) [(0, 0, 1), (0, 0, 2)]"
    by auto
  have d1: "downsample 1 (do_charge_density ex_host) = Inr (do_charge_density ex_host)"
    by (simp add: downsample_def)
  have v: "pd_target ex_pd = [1, 2]" by (simp add: ex_pd_def)
  from d1 h7 u c t v show ?thesis by simp
qed


section \<open>The blocks of mode \<open>all\<close>\<close>

lemma upto_blocks:
  assumes "0 < (np::int)"
  shows "concat (map (\<lambda>i. [i * np..(i + 1) * np - 1]) [0..int k - 1]) = [0..int k * np - 1]"
proof (induction k)
  case 0
  then show ?case by simp
next
  case (Suc k)
  have "[0..int (Suc k) - 1] = [0..int k - 1] @ [int k]"
    by (simp add: upto_rec2)
  then have "concat (map (\<lambda>i. [i * np..(i + 1) * np - 1]) [0..int (Suc k) - 1])
      = [0..int k * np - 1] @ [int k * np..(int k + 1) * np - 1]"
    using Suc.IH by simp
  also have "\<dots> = [0..(int k + 1) * np - 1]"
  proof -
    have "0 \<le> int k * np" using assms by simp
    moreover have "int k * np \<le> (int k + 1) * np - 1" using assms by (simp add: algebra_simps)
    ultimately show ?thesis by (rule upto_split1 [symmetric])
  qed
  finally show ?case by (simp add: algebra_simps)
qed

lemma ceiling_blocks:
  assumes "0 < (np::int)" and "0 < tot"
  shows "1 \<le> \<lceil>real_of_int tot / real_of_int np\<rceil>"
    and "(\<lceil>real_of_int tot / real_of_int np\<rceil> - 1) * np < tot"
    and "tot \<le> \<lceil>real_of_int tot / real_of_int np\<rceil> * np"
proof -
  let ?x = "real_of_int tot / real_of_int np"
  let ?n = "\<lceil>?x\<rceil>"
  from assms have xpos: "0 < ?x" by simp
  then have "0 < ?n" by (simp only: zero_less_ceiling)
  then show "1 \<le> ?n" by linarith
  have nppos: "0 < real_of_int np" using assms(1) by simp
  have xnp: "?x * real_of_int np = real_of_int tot" using nppos by simp
  have "?x \<le> of_int ?n" by (rule le_of_int_ceiling)
  then have "?x * real_of_int np \<le> of_int ?n * real_of_int np"
    using nppos by (intro mult_right_mono) simp_all
  then have "real_of_int tot \<le> real_of_int (?n * np)" by (simp only: xnp of_int_mult)
  then show "tot \<le> ?n * np" by linarith
  have "of_int ?n - 1 < ?x" using ceiling_correct [of ?x] by simp
  then have "(of_int ?n - 1) * real_of_int np < ?x * real_of_int np"
    using nppos by (intro mult_strict_right_mono) simp_all
  then have "real_of_int ((?n - 1) * np) < real_of_int tot"
    by (simp only: xnp of_int_mult of_int_diff of_int_1)
  then show "(?n - 1) * np < tot" by linarith
qed

lemma blocks_cover:
  assumes "0 < (np::int)" and "0 \<le> tot"
  shows "concat (map (block_indices np tot \<lceil>real_of_int tot / real_of_int np\<rceil>)
           (arange 0 \<lceil>real_of_int tot / real_of_int np\<rceil>)) = arange 0 tot"
proof (cases "tot = 0")
  case True
  then show ?thesis by (simp add: arange_def)
next
  case False
  with assms have tpos: "0 < tot" by simp
  let ?nb = "\<lceil>real_of_int tot / real_of_int np\<rceil>"
  note cb = ceiling_blocks [OF assms(1) tpos]
  define k where "k = nat (?nb - 1)"
  from cb(1) have k: "int k = ?nb - 1" by (simp add: k_def)
  have "[0..int k] = [0..int k - 1] @ [int k]" by (rule upto_rec2) simp
  then have split: "arange 0 ?nb = [0..int k - 1] @ [int k]"
    by (simp add: arange_def k)
  have front: "map (block_indices np tot ?nb) [0..int k - 1]
      = map (\<lambda>i. [i * np..(i + 1) * np - 1]) [0..int k - 1]"
    using k by (auto simp: block_indices_def arange_def)
  have last: "block_indices np tot ?nb (int k) = [int k * np..tot - 1]"
    using k by (simp add: block_indices_def arange_def)
  have "concat (map (block_indices np tot ?nb) (arange 0 ?nb))
      = [0..int k * np - 1] @ [int k * np..tot - 1]"
    by (simp add: split front last upto_blocks [OF assms(1)])
  also have "\<dots> = [0..tot - 1]"
  proof -
    have "0 \<le> int k * np" using assms(1) by simp
    moreover have "int k * np \<le> tot - 1" using cb(2) k by simp
    ultimately show ?thesis by (rule upto_split1 [symmetric])
  qed
  finally show ?thesis by (simp add: arange_def)
qed


lemma all_loop_blocks:
  assumes "all_loop self lib grid_pos ats shape np tot nb blocks (pe0, po0, an0, pp0)
             = Inr (pe, po, an, pp)"
  shows "\<exists>rs. list_all2 (\<lambda>i r. edges_of_indices self lib grid_pos ats shape
                                  (block_indices np tot nb i) = Inr r) blocks rs
           \<and> pe = pe0 @ concat (map (\<lambda>(i, r). shift_edges (i * np) (s_edges r)) (zip blocks rs))
           \<and> po = po0 @ concat (map s_offsets rs)
           \<and> an = an0 @ replicate (length (concat (map s_pos rs))) 0
           \<and> pp = pp0 @ concat (map s_pos rs)"
  using assms
proof (induction blocks arbitrary: pe0 po0 an0 pp0)
  case Nil
  then show ?case by simp
next
  case (Cons i rest)
  from Cons.prems obtain ne no nan npos nch where
    r: "edges_of_indices self lib grid_pos ats shape (block_indices np tot nb i)
          = Inr (ne, no, nan, npos, nch)"
    and l: "all_loop self lib grid_pos ats shape np tot nb rest
              (pe0 @ shift_edges (i * np) ne, po0 @ no, an0 @ replicate (length npos) 0,
               pp0 @ npos) = Inr (pe, po, an, pp)"
    by (auto split: sum.splits)
  from Cons.IH [OF l] obtain rs where
    a: "list_all2 (\<lambda>i r. edges_of_indices self lib grid_pos ats shape
                            (block_indices np tot nb i) = Inr r) rest rs"
    and pe: "pe = (pe0 @ shift_edges (i * np) ne)
                   @ concat (map (\<lambda>(i, r). shift_edges (i * np) (s_edges r)) (zip rest rs))"
    and po: "po = (po0 @ no) @ concat (map s_offsets rs)"
    and an: "an = (an0 @ replicate (length npos) 0)
                   @ replicate (length (concat (map s_pos rs))) 0"
    and pp: "pp = (pp0 @ npos) @ concat (map s_pos rs)"
    by blast
  let ?rs = "(ne, no, nan, npos, nch) # rs"
  have "list_all2 (\<lambda>i r. edges_of_indices self lib grid_pos ats shape
                            (block_indices np tot nb i) = Inr r) (i # rest) ?rs"
    using r a by simp
  moreover have "pe = pe0 @ concat (map (\<lambda>(i, r). shift_edges (i * np) (s_edges r))
                                        (zip (i # rest) ?rs))"
    using pe by simp
  moreover have "po = po0 @ concat (map s_offsets ?rs)" using po by simp
  moreover have "an = an0 @ replicate (length (concat (map s_pos ?rs))) 0"
    using an by (simp add: replicate_add)
  moreover have "pp = pp0 @ concat (map s_pos ?rs)" using pp by simp
  ultimately show ?case by blast
qed

lemma unravel_index_append:
  "unravel_index (xs @ ys) shape =
     (case unravel_index xs shape of
        Inl e \<Rightarrow> Inl e
      | Inr a \<Rightarrow> (case unravel_index ys shape of Inl e \<Rightarrow> Inl e | Inr b \<Rightarrow> Inr (a @ b)))"
  by (induction xs) (auto split: sum.splits)

lemma unravel_index_concat:
  assumes "list_all2 (\<lambda>xs c. unravel_index xs shape = Inr c) xss cs"
  shows "unravel_index (concat xss) shape = Inr (concat cs)"
  using assms by (induction rule: list_all2_induct) (simp_all add: unravel_index_append)


lemma block_probe_global:
  assumes np: "0 < np"
    and blk: "edges_of_indices self lib grid_pos ats shape
                (block_indices np (int (total_points shape)) nb (int n)) = Inr r"
    and all: "unravel_index (arange 0 (int (total_points shape))) shape = Inr pc"
    and l: "l < length (s_pos r)"
  shows "n * nat np + l < length pc
       \<and> map grid_pos pc ! (n * nat np + l) = s_pos r ! l"
proof -
  let ?tot = "int (total_points shape)"
  obtain ne no nan npos nch where r: "r = (ne, no, nan, npos, nch)" by (cases r) auto
  from edges_of_indices_probes [OF blk [unfolded r]]
  have u: "unravel_index (block_indices np ?tot nb (int n)) shape = Inr nch"
    and p: "npos = map grid_pos nch" by simp_all
  from l r p have l': "l < length nch" by simp
  from unravel_index_nth [OF u] l'
  have len: "length nch = length (block_indices np ?tot nb (int n))"
    and u1: "unravel1 shape (block_indices np ?tot nb (int n) ! l) = Inr (nch ! l)"
    by simp_all
  have idx: "block_indices np ?tot nb (int n) ! l = int n * np + int l"
    using l' len by (auto simp: block_indices_def nth_arange length_arange split: if_splits)
  obtain nx ny nz where sh: "shape = (nx, ny, nz)" by (cases shape) auto
  from unravel_index_nth [OF all]
  have lenpc: "length pc = total_points shape"
    and nthpc: "\<forall>m < total_points shape. unravel1 shape (arange 0 ?tot ! m) = Inr (pc ! m)"
    by (simp_all add: length_arange)
  define g where "g = n * nat np + l"
  have gi: "int g = int n * np + int l" using np by (simp add: g_def)
  from u1 idx sh have "int n * np + int l < ?tot"
    by (auto split: if_splits)
  with gi have glt: "g < total_points shape" by linarith
  with nthpc have "unravel1 shape (arange 0 ?tot ! g) = Inr (pc ! g)" by simp
  moreover from glt have "arange 0 ?tot ! g = int g" by (simp add: nth_arange)
  ultimately have "unravel1 shape (int n * np + int l) = Inr (pc ! g)" by (simp add: gi)
  with u1 idx have "pc ! g = nch ! l" by simp
  with glt lenpc l' p r show ?thesis by (simp add: g_def)
qed

lemma rg_mid_block0:
  "RadiusGraphPBCWrapper (1 / 4)
     \<lparr>at_numbers = [1, 0, 0], at_positions = [(0, 0, 1 / 2), (0, 0, 0), (0, 0, 1 / 5)],
      at_cell = ex_cell, at_pbc = (True, True, True)\<rparr> (True, True, False)
   = Inr \<lparr>rg_cutoff = 1 / 4, rg_edge_index = [], rg_offsets = []\<rparr>"
  by (simp add: RadiusGraphPBCWrapper_def ex_cell_def rep_axis_def norm2_def ceiling_quarter
        unit_cells_110 rg_triples_def mask_def atom_distance_sqr_def upt_rec)

lemma rg_mid_block1:
  "RadiusGraphPBCWrapper (1 / 4)
     \<lparr>at_numbers = [1, 0, 0], at_positions = [(0, 0, 1 / 2), (0, 0, 2 / 5), (0, 0, 3 / 5)],
      at_cell = ex_cell, at_pbc = (True, True, True)\<rparr> (True, True, False)
   = Inr \<lparr>rg_cutoff = 1 / 4, rg_edge_index = [(0, 1), (0, 2)],
          rg_offsets = [(0, 0, 0), (0, 0, 0)]\<rparr>"
  by (simp add: RadiusGraphPBCWrapper_def ex_cell_def rep_axis_def norm2_def ceiling_quarter
        unit_cells_110 rg_triples_def mask_def atom_distance_sqr_def upt_rec)

lemma rg_mid_block2:
  "RadiusGraphPBCWrapper (1 / 4)
     \<lparr>at_numbers = [1, 0], at_positions = [(0, 0, 1 / 2), (0, 0, 4 / 5)],
      at_cell = ex_cell, at_pbc = (True, True, True)\<rparr> (True, True, False)
   = Inr \<lparr>rg_cutoff = 1 / 4, rg_edge_index = [], rg_offsets = []\<rparr>"
  by (simp add: RadiusGraphPBCWrapper_def ex_cell_def rep_axis_def norm2_def ceiling_quarter
        unit_cells_110 rg_triples_def mask_def atom_distance_sqr_def upt_rec)

lemma ex_blocks:
  "num_blocks_of 5 2 = Inr 3"
  "block_indices 2 5 3 0 = [0, 1]"
  "block_indices 2 5 3 1 = [2, 3]"
  "block_indices 2 5 3 2 = [4]"
  "arange 0 3 = [0, 1, 2]"
  "arange 0 5 = [0, 1, 2, 3, 4]"
  by (simp_all add: num_blocks_of_def block_indices_def arange_def upto.simps ceiling_eq_iff)

lemma ex_block_edges:
  "edges_of_indices ex_adder_all lib (calculate_grid_pos (1, 1, 5) ex_cell) ex_atoms_mid
     (1, 1, 5) [0, 1]
   = Inr ([], [], [1, 0, 0], [(0, 0, 0), (0, 0, 1 / 5)], [(0, 0, 0), (0, 0, 1)])"
  "edges_of_indices ex_adder_all lib (calculate_grid_pos (1, 1, 5) ex_cell) ex_atoms_mid
     (1, 1, 5) [2, 3]
   = Inr ([(0, 1), (0, 2)], [(0, 0, 0), (0, 0, 0)], [1, 0, 0],
          [(0, 0, 2 / 5), (0, 0, 3 / 5)], [(0, 0, 2), (0, 0, 3)])"
  "edges_of_indices ex_adder_all lib (calculate_grid_pos (1, 1, 5) ex_cell) ex_atoms_mid
     (1, 1, 5) [4]
   = Inr ([], [], [1, 0], [(0, 0, 4 / 5)], [(0, 0, 4)])"
  using rg_mid_block0 rg_mid_block1 rg_mid_block2
  by (simp_all add: edges_of_indices_def get_edges_from_choice_def ex_adder_all_def ex_adder_def
        ex_atoms_mid_def ex_cell_def rg_get_all_neighbors_def)

lemma ex_sample_all:
  "sample_all ex_adder_all lib (calculate_grid_pos (1, 1, 5) ex_cell) ex_atoms_mid (1, 1, 5) [1] 2
   = Inr ([(0, 3), (0, 4)], [(0, 0, 0), (0, 0, 0)], [1, 0, 0, 0, 0, 0],
          [(0, 0, 0), (0, 0, 1 / 5), (0, 0, 2 / 5), (0, 0, 3 / 5), (0, 0, 4 / 5)],
          [(0, 0, 0), (0, 0, 1), (0, 0, 2), (0, 0, 3), (0, 0, 4)])"
  by (simp add: sample_all_def ex_blocks ex_block_edges [unfolded One_nat_def] shift_edges_def)

text \<open>
  What holds of mode \<open>all\<close> for every grid shape and every positive block size, dividing
  or not: the number of blocks is defined, and the blocks' index ranges, put end to end in
  block order, are exactly \<open>0, ..., total - 1\<close>, each index once. Whenever the sweep
  returns, every block's neighbour search returned; the edges, offsets and probe positions
  are the blocks' results concatenated in block order, the second row of block \<open>i\<close>'s
  edges shifted by \<open>i * num_probes\<close>; the probes are all grid points in flattened order;
  and local probe \<open>l\<close> of block \<open>n\<close> is probe \<open>n * num_probes + l\<close> of the concatenation.
\<close>

lemma all_mode_blocks:
  assumes "0 < num_probes"
  shows "\<exists>nb. num_blocks_of (int (total_points shape)) num_probes = Inr nb
     \<and> concat (map (block_indices num_probes (int (total_points shape)) nb) (arange 0 nb))
         = arange 0 (int (total_points shape))
     \<and> distinct (concat (map (block_indices num_probes (int (total_points shape)) nb)
                           (arange 0 nb)))
     \<and> set (concat (map (block_indices num_probes (int (total_points shape)) nb)
                      (arange 0 nb))) = {0..<int (total_points shape)}
     \<and> (\<forall>pe po an pp pc.
          sample_all self lib grid_pos ats shape host_numbers num_probes
            = Inr (pe, po, an, pp, pc) \<longrightarrow>
          (\<exists>rs. list_all2 (\<lambda>i r. edges_of_indices self lib grid_pos ats shape
                      (block_indices num_probes (int (total_points shape)) nb i) = Inr r)
                    (arange 0 nb) rs
            \<and> pe = concat (map (\<lambda>(i, r). shift_edges (i * num_probes) (s_edges r))
                              (zip (arange 0 nb) rs))
            \<and> po = concat (map s_offsets rs)
            \<and> pp = concat (map s_pos rs)
            \<and> an = host_numbers @ replicate (length pp) 0
            \<and> unravel_index (arange 0 (int (total_points shape))) shape = Inr pc
            \<and> pp = map grid_pos pc
            \<and> (\<forall>n < length rs. \<forall>l < length (s_pos (rs ! n)).
                  n * nat num_probes + l < length pp
                \<and> pp ! (n * nat num_probes + l) = s_pos (rs ! n) ! l)))"
proof -
  let ?tot = "int (total_points shape)"
  let ?nb = "\<lceil>real_of_int ?tot / real_of_int num_probes\<rceil>"
  let ?blk = "block_indices num_probes ?tot ?nb"
  have nb: "num_blocks_of ?tot num_probes = Inr ?nb"
    using assms by (simp add: num_blocks_of_def)
  have cover: "concat (map ?blk (arange 0 ?nb)) = arange 0 ?tot"
    using assms by (intro blocks_cover) simp_all
  have dist: "distinct (concat (map ?blk (arange 0 ?nb)))"
    by (simp only: cover) (simp add: arange_def)
  have st: "set (concat (map ?blk (arange 0 ?nb))) = {0..<?tot}"
    by (simp only: cover set_arange)
  have main: "\<exists>rs. list_all2 (\<lambda>i r. edges_of_indices self lib grid_pos ats shape (?blk i) = Inr r)
                    (arange 0 ?nb) rs
            \<and> pe = concat (map (\<lambda>(i, r). shift_edges (i * num_probes) (s_edges r))
                              (zip (arange 0 ?nb) rs))
            \<and> po = concat (map s_offsets rs)
            \<and> pp = concat (map s_pos rs)
            \<and> an = host_numbers @ replicate (length pp) 0
            \<and> unravel_index (arange 0 ?tot) shape = Inr pc
            \<and> pp = map grid_pos pc
            \<and> (\<forall>n < length rs. \<forall>l < length (s_pos (rs ! n)).
                  n * nat num_probes + l < length pp
                \<and> pp ! (n * nat num_probes + l) = s_pos (rs ! n) ! l)"
    if s: "sample_all self lib grid_pos ats shape host_numbers num_probes
            = Inr (pe, po, an, pp, pc)" for pe po an pp pc
  proof -
    from s nb have lp: "all_loop self lib grid_pos ats shape num_probes ?tot ?nb
                          (arange 0 ?nb) ([], [], host_numbers, []) = Inr (pe, po, an, pp)"
      and all: "unravel_index (arange 0 ?tot) shape = Inr pc"
      by (auto simp: sample_all_def Let_def split: sum.splits prod.splits)
    from all_loop_blocks [OF lp] obtain rs where
      a: "list_all2 (\<lambda>i r. edges_of_indices self lib grid_pos ats shape (?blk i) = Inr r)
            (arange 0 ?nb) rs"
      and pe: "pe = concat (map (\<lambda>(i, r). shift_edges (i * num_probes) (s_edges r))
                              (zip (arange 0 ?nb) rs))"
      and po: "po = concat (map s_offsets rs)"
      and an: "an = host_numbers @ replicate (length (concat (map s_pos rs))) 0"
      and pp: "pp = concat (map s_pos rs)"
      by auto
    have each: "unravel_index (?blk i) shape = Inr (s_choice r) \<and> s_pos r = map grid_pos (s_choice r)"
      if "edges_of_indices self lib grid_pos ats shape (?blk i) = Inr r" for i r
    proof -
      obtain ne no nan npos nch where r: "r = (ne, no, nan, npos, nch)" by (cases r) auto
      from edges_of_indices_probes [OF that [unfolded r]] r show ?thesis by simp
    qed
    from a each have a2: "list_all2 (\<lambda>xs c. unravel_index xs shape = Inr c)
                            (map ?blk (arange 0 ?nb)) (map s_choice rs)"
      by (simp add: list_all2_map1 list_all2_map2) (erule list_all2_mono, simp)
    from unravel_index_concat [OF a2] cover all
    have pc: "pc = concat (map s_choice rs)" by simp
    have "s_pos r = map grid_pos (s_choice r)" if "r \<in> set rs" for r
    proof -
      from that obtain n where "n < length rs" "rs ! n = r" by (auto simp: in_set_conv_nth)
      with a have "edges_of_indices self lib grid_pos ats shape (?blk (arange 0 ?nb ! n)) = Inr r"
        by (auto simp: list_all2_conv_all_nth)
      from each [OF this] show ?thesis by simp
    qed
    then have eq: "map s_pos rs = map (\<lambda>r. map grid_pos (s_choice r)) rs" by simp
    have "map grid_pos pc = concat (map (map grid_pos) (map s_choice rs))"
      by (simp only: pc map_concat)
    also have "\<dots> = concat (map (\<lambda>r. map grid_pos (s_choice r)) rs)"
      by (simp only: map_map comp_def)
    also have "\<dots> = concat (map s_pos rs)" by (simp only: eq)
    finally have pg: "pp = map grid_pos pc" by (simp only: pp)
    have lenrs: "length rs = length (arange 0 ?nb)"
      using a by (simp add: list_all2_lengthD)
    have ix: "n * nat num_probes + l < length pp
                \<and> pp ! (n * nat num_probes + l) = s_pos (rs ! n) ! l"
      if n: "n < length rs" and l: "l < length (s_pos (rs ! n))" for n l
    proof -
      from n lenrs have "arange 0 ?nb ! n = int n"
        by (simp add: nth_arange length_arange)
      with a n have "edges_of_indices self lib grid_pos ats shape (?blk (int n)) = Inr (rs ! n)"
        by (auto simp: list_all2_conv_all_nth)
      from block_probe_global [OF assms this all l] show ?thesis
        by (simp add: pg)
    qed
    from a pe po pp an all pg ix show ?thesis by blast
  qed
  from nb cover dist st main show ?thesis by blast
qed


lemma all_mode_blocks_example:
  "(0::int) < 2
   \<and> num_blocks_of (int (total_points (1, 1, 5))) 2 = Inr 3
   \<and> concat (map (block_indices 2 (int (total_points (1, 1, 5))) 3) (arange 0 3))
       = arange 0 (int (total_points (1, 1, 5)))
   \<and> map (block_indices 2 5 3) [0, 1, 2] = [[0, 1], [2, 3], [4]]
   \<and> sample_all ex_adder_all ex_lib (calculate_grid_pos (1, 1, 5) ex_cell) ex_atoms_mid
        (1, 1, 5) [1] 2
      = Inr ([(0, 3), (0, 4)], [(0, 0, 0), (0, 0, 0)], [1, 0, 0, 0, 0, 0],
          [(0, 0, 0), (0, 0, 1 / 5), (0, 0, 2 / 5), (0, 0, 3 / 5), (0, 0, 4 / 5)],
          [(0, 0, 0), (0, 0, 1), (0, 0, 2), (0, 0, 3), (0, 0, 4)])"
proof -
  have h: "(0::int) < 2" by simp
  have nb: "num_blocks_of (int (total_points (1, 1, 5))) 2 = Inr 3"
    by (simp add: ex_blocks)
  from all_mode_blocks [OF h, of "(1, 1, 5)"] nb
  have c: "concat (map (block_indices 2 (int (total_points (1, 1, 5))) 3) (arange 0 3))
       = arange 0 (int (total_points (1, 1, 5)))"
    by auto
  have m: "map (block_indices 2 5 3) [0, 1, 2] = [[0, 1], [2, 3], [4]]"
    by (simp add: ex_blocks)
  from h nb c m ex_sample_all [of ex_lib] show ?thesis by simp
qed


section \<open>What the shift of mode \<open>all\<close> references\<close>

text \<open>Every edge \<open>(a, p)\<close> of block \<open>n\<close> is in the result as \<open>(a, p + n * num_probes)\<close>. Where
  \<open>p\<close> is the block's local probe \<open>l\<close>, that is the index after the host's atoms plus \<open>l\<close>,
  the shifted index holds, in the concatenated positions, the position the block had at
  \<open>p\<close>, and a probe in the concatenated atomic numbers.\<close>

lemma shift_edges_mem:
  assumes "0 < np" and "(a, p) \<in> set es"
  shows "(a, p + n * nat np) \<in> set (shift_edges (int n * np) es)"
proof -
  have "nat (int p + int n * np) = p + n * nat np"
    using assms(1) by (simp add: nat_add_distrib nat_mult_distrib)
  with assms(2) show ?thesis by (force simp: shift_edges_def)
qed

lemma all_mode_probe_edges_reference:
  assumes np: "0 < num_probes"
    and s: "sample_all self lib grid_pos ats shape host_numbers num_probes
              = Inr (pe, po, an, pp, pc)"
  shows "\<exists>nb rs.
           num_blocks_of (int (total_points shape)) num_probes = Inr nb
         \<and> list_all2 (\<lambda>i r. edges_of_indices self lib grid_pos ats shape
                      (block_indices num_probes (int (total_points shape)) nb i) = Inr r)
                    (arange 0 nb) rs
         \<and> (\<forall>n < length rs. \<forall>(a, p) \<in> set (s_edges (rs ! n)).
                (a, p + n * nat num_probes) \<in> set pe)
         \<and> (\<forall>n < length rs. \<forall>l < length (s_pos (rs ! n)).
                (host_pos @ pp) ! (length host_pos + l + n * nat num_probes)
                  = (host_pos @ s_pos (rs ! n)) ! (length host_pos + l)
              \<and> length host_numbers + l + n * nat num_probes < length an
              \<and> an ! (length host_numbers + l + n * nat num_probes) = 0)"
proof -
  from all_mode_blocks [OF np, of shape self lib grid_pos ats host_numbers]
  obtain nb where nb: "num_blocks_of (int (total_points shape)) num_probes = Inr nb"
    and imp: "\<forall>pe po an pp pc.
          sample_all self lib grid_pos ats shape host_numbers num_probes
            = Inr (pe, po, an, pp, pc) \<longrightarrow>
          (\<exists>rs. list_all2 (\<lambda>i r. edges_of_indices self lib grid_pos ats shape
                      (block_indices num_probes (int (total_points shape)) nb i) = Inr r)
                    (arange 0 nb) rs
            \<and> pe = concat (map (\<lambda>(i, r). shift_edges (i * num_probes) (s_edges r))
                              (zip (arange 0 nb) rs))
            \<and> po = concat (map s_offsets rs)
            \<and> pp = concat (map s_pos rs)
            \<and> an = host_numbers @ replicate (length pp) 0
            \<and> unravel_index (arange 0 (int (total_points shape))) shape = Inr pc
            \<and> pp = map grid_pos pc
            \<and> (\<forall>n < length rs. \<forall>l < length (s_pos (rs ! n)).
                  n * nat num_probes + l < length pp
                \<and> pp ! (n * nat num_probes + l) = s_pos (rs ! n) ! l))"
    by (elim exE conjE)
  from imp [rule_format, OF s]
  obtain rs where a: "list_all2 (\<lambda>i r. edges_of_indices self lib grid_pos ats shape
                      (block_indices num_probes (int (total_points shape)) nb i) = Inr r)
                    (arange 0 nb) rs"
    and pe: "pe = concat (map (\<lambda>(i, r). shift_edges (i * num_probes) (s_edges r))
                              (zip (arange 0 nb) rs))"
    and an: "an = host_numbers @ replicate (length pp) 0"
    and ix: "\<forall>n < length rs. \<forall>l < length (s_pos (rs ! n)).
                  n * nat num_probes + l < length pp
                \<and> pp ! (n * nat num_probes + l) = s_pos (rs ! n) ! l"
    by (elim exE conjE)
  have lenrs: "length rs = length (arange 0 nb)"
    using a by (simp add: list_all2_lengthD)
  have e: "(a, p + n * nat num_probes) \<in> set pe"
    if n: "n < length rs" and ap: "(a, p) \<in> set (s_edges (rs ! n))" for n a p
  proof -
    from n lenrs have "arange 0 nb ! n = int n"
      by (simp add: nth_arange length_arange)
    with n lenrs have "zip (arange 0 nb) rs ! n = (int n, rs ! n)" by simp
    moreover from n lenrs have "n < length (zip (arange 0 nb) rs)" by simp
    ultimately have z: "(int n, rs ! n) \<in> set (zip (arange 0 nb) rs)"
      by (metis nth_mem)
    have m: "(a, p + n * nat num_probes)
        \<in> set (shift_edges (int n * num_probes) (s_edges (rs ! n)))"
      using np ap by (rule shift_edges_mem)
    have "set (shift_edges (int n * num_probes) (s_edges (rs ! n))) \<subseteq> set pe"
      unfolding pe set_concat using z by (intro Union_upper) force
    with m show ?thesis by blast
  qed
  have r: "(host_pos @ pp) ! (length host_pos + l + n * nat num_probes)
                  = (host_pos @ s_pos (rs ! n)) ! (length host_pos + l)
              \<and> length host_numbers + l + n * nat num_probes < length an
              \<and> an ! (length host_numbers + l + n * nat num_probes) = 0"
    if n: "n < length rs" and l: "l < length (s_pos (rs ! n))" for n l
  proof -
    from ix n l have 1: "n * nat num_probes + l < length pp"
      and 2: "pp ! (n * nat num_probes + l) = s_pos (rs ! n) ! l" by simp_all
    have i1: "length host_pos + l + n * nat num_probes
                = length host_pos + (n * nat num_probes + l)" by simp
    have i2: "length host_numbers + l + n * nat num_probes
                = length host_numbers + (n * nat num_probes + l)" by simp
    have A: "(host_pos @ pp) ! (length host_pos + l + n * nat num_probes) = s_pos (rs ! n) ! l"
      unfolding i1 by (simp only: nth_append_length_plus 2)
    have B: "(host_pos @ s_pos (rs ! n)) ! (length host_pos + l) = s_pos (rs ! n) ! l"
      by (rule nth_append_length_plus)
    have C: "length host_numbers + l + n * nat num_probes < length an"
      using 1 by (simp add: an)
    have "replicate (length pp) (0::int) ! (n * nat num_probes + l) = 0"
      using 1 by simp
    then have D: "an ! (length host_numbers + l + n * nat num_probes) = 0"
      unfolding i2 an by (simp only: nth_append_length_plus)
    from A B C D show ?thesis by (simp only:)
  qed
  from nb a e r show ?thesis by blast
qed

lemma ex_pair_blocks:
  "num_blocks_of 4 2 = Inr 2"
  "block_indices 2 4 2 0 = [0, 1]"
  "block_indices 2 4 2 1 = [2, 3]"
  "arange 0 2 = [0, 1]"
  "arange 0 4 = [0, 1, 2, 3]"
  by (simp_all add: num_blocks_of_def block_indices_def arange_def upto.simps)

lemma ex_pair_block_edges:
  "edges_of_indices ex_adder_pair ex_lib_pair (calculate_grid_pos (1, 1, 4) ex_cell)
     ex_atoms_pair (1, 1, 4) [0, 1]
   = Inr ([(0, 1), (1, 0)], [(0, 0, 0), (0, 0, 0)], [1, 1, 0, 0],
          [(0, 0, 0), (0, 0, 1 / 4)], [(0, 0, 0), (0, 0, 1)])"
  "edges_of_indices ex_adder_pair ex_lib_pair (calculate_grid_pos (1, 1, 4) ex_cell)
     ex_atoms_pair (1, 1, 4) [2, 3]
   = Inr ([(0, 1), (1, 0)], [(0, 0, 0), (0, 0, 0)], [1, 1, 0, 0],
          [(0, 0, 1 / 2), (0, 0, 3 / 4)], [(0, 0, 2), (0, 0, 3)])"
  by (simp_all add: edges_of_indices_def get_edges_from_choice_def ex_adder_pair_def
        ex_atoms_pair_def ex_cell_def ase_get_all_neighbors_def AseNeighborListWrapper_def
        ex_lib_pair_def ase_row_def upt_rec)

lemma ex_sample_pair:
  "sample_all ex_adder_pair ex_lib_pair (calculate_grid_pos (1, 1, 4) ex_cell) ex_atoms_pair
     (1, 1, 4) [1, 1] 2
   = Inr ([(0, 1), (1, 0), (0, 3), (1, 2)], [(0, 0, 0), (0, 0, 0), (0, 0, 0), (0, 0, 0)],
          [1, 1, 0, 0, 0, 0],
          [(0, 0, 0), (0, 0, 1 / 4), (0, 0, 1 / 2), (0, 0, 3 / 4)],
          [(0, 0, 0), (0, 0, 1), (0, 0, 2), (0, 0, 3)])"
  by (simp add: sample_all_def ex_pair_blocks ex_pair_block_edges [unfolded One_nat_def]
        shift_edges_def)

lemma ex_compute_pair:
  "compute_probe_data ex_adder_pair ex_lib_pair rnd no_args ex_host_pair = Inr ex_pd_pair"
  using ex_sample_pair [unfolded ex_atoms_pair_def One_nat_def]
  by (simp add: compute_probe_data_def ex_adder_pair_def no_args_def ex_host_pair_def Atoms_def
        downsample_def sample_def ex_pd_pair_def ex_cell_def)


text \<open>
  Claim C5 (blocks of mode \<open>all\<close>). The claim asks that the shift make the edges of
  every block reference the concatenated ordering of atoms and probes, the probe-side
  indices being the ones shifted. The partition and the concatenation hold
  (\<open>all_mode_blocks\<close>), and an edge whose second end is a probe references that probe
  after the shift (\<open>all_mode_probe_edges_reference\<close>). But the shift is applied to the
  whole second row. With the cell list and atomic edges included, the second block's
  edges \<open>(0, 1)\<close> and \<open>(1, 0)\<close> between the two atoms come out as \<open>(0, 3)\<close> and \<open>(1, 2)\<close>:
  their second ends are no longer the atoms at indices 1 and 0 but the probes at indices
  3 and 2 of the result.
\<close>

theorem all_mode_shifts_atomic_edges:
  "compute_probe_data ex_adder_pair ex_lib_pair ex_rnd no_args ex_host_pair = Inr ex_pd_pair
   \<and> pd_edge_index ex_pd_pair = Some [(0, 1), (1, 0), (0, 3), (1, 2)]
   \<and> edges_of_indices ex_adder_pair ex_lib_pair (calculate_grid_pos (1, 1, 4) ex_cell)
        ex_atoms_pair (1, 1, 4) (block_indices 2 4 2 1)
      = Inr ([(0, 1), (1, 0)], [(0, 0, 0), (0, 0, 0)], [1, 1, 0, 0],
             [(0, 0, 1 / 2), (0, 0, 3 / 4)], [(0, 0, 2), (0, 0, 3)])
   \<and> pd_atomic_numbers ex_pd_pair ! 1 = 1
   \<and> pd_atomic_numbers ex_pd_pair ! 3 = 0
   \<and> pd_pos ex_pd_pair ! 1 = (1 / 2, 1 / 2, 1 / 10)
   \<and> pd_pos ex_pd_pair ! 3 = (0, 0, 1 / 4)"
  by (simp add: ex_compute_pair ex_pair_blocks ex_pair_block_edges [unfolded One_nat_def])
     (simp add: ex_pd_pair_def)


end
